theory Spec2Isabelle
  imports Main "HOL-Library.Word"
begin

section \<open>Data model of package dynamo (create.go, table.go)\<close>

text \<open>
  Constants of the AWS SDK (package \<open>dynamodb\<close>) that the code refers to by name.
  The SDK is an external library; the values are the ones the SDK declares, of which the
  specification quotes "PROVISIONED", "HASH" and "RANGE".
\<close>

definition BillingModeProvisioned :: string where
  "BillingModeProvisioned = ''PROVISIONED''"

definition BillingModePayPerRequest :: string where
  "BillingModePayPerRequest = ''PAY_PER_REQUEST''"

definition KeyTypeHash :: string where
  "KeyTypeHash = ''HASH''"

definition KeyTypeRange :: string where
  "KeyTypeRange = ''RANGE''"

definition ErrCodeResourceInUseException :: string where
  "ErrCodeResourceInUseException = ''ResourceInUseException''"

definition ErrCodeResourceNotFoundException :: string where
  "ErrCodeResourceNotFoundException = ''ResourceNotFoundException''"

text \<open>
  The package's own constants (create.go, lines 11-15). Go's \<open>int64\<close> is a 64-bit word;
  the code stores and copies capacity units and never computes with them.
\<close>

definition DefaultBillingMode :: string where
  "DefaultBillingMode = BillingModeProvisioned"

definition DefaultReadCapacity :: "64 word" where
  "DefaultReadCapacity = 3"

definition DefaultWriteCapacity :: "64 word" where
  "DefaultWriteCapacity = 3"

text \<open>
  The request types of the SDK. A field the code always fills through \<open>aws.String\<close>,
  \<open>aws.Int64\<close> or \<open>&T{...}\<close> holds the value itself; a pointer field the code may leave
  \<open>nil\<close> is an \<open>option\<close>. Field names are the SDK's, prefixed where two structs share a
  name.
\<close>

record AttributeDefinition =
  AttributeName :: string
  AttributeType :: string

record KeySchemaElement =
  kseAttributeName :: string
  KeyType :: string

record ProvisionedThroughput =
  ReadCapacityUnits :: "64 word"
  WriteCapacityUnits :: "64 word"

record Projection =
  NonKeyAttributes :: "string list"
  ProjectionType :: string

record StreamSpecification =
  StreamEnabled :: bool
  StreamViewType :: string

record GlobalSecondaryIndex =
  gsiIndexName :: string
  gsiKeySchema :: "KeySchemaElement list"
  gsiProjection :: Projection
  gsiProvisionedThroughput :: "ProvisionedThroughput option"

text \<open>The SDK's \<open>LocalSecondaryIndex\<close> struct has no throughput field at all.\<close>

record LocalSecondaryIndex =
  lsiIndexName :: string
  lsiKeySchema :: "KeySchemaElement list"
  lsiProjection :: Projection

record CreateTableInput =
  AttributeDefinitions :: "AttributeDefinition list"
  BillingMode :: string
  GlobalSecondaryIndexes :: "GlobalSecondaryIndex list"
  KeySchema :: "KeySchemaElement list"
  LocalSecondaryIndexes :: "LocalSecondaryIndex list"
  ProvisionedThroughput :: "ProvisionedThroughput option"
  StreamSpecification :: "StreamSpecification option"
  TableName :: string

record DeleteTableInput =
  dtiTableName :: string

text \<open>The package's own structs (create.go, lines 17-42).\<close>

record key =
  attributeName :: string
  attributeType :: string

record keyOptions =
  hashKey :: "key option"
  rangeKey :: "key option"

record attribute =
  Name :: string
  Type :: string

record tableOptions =
  attributes :: "attribute list"
  keys :: keyOptions
  billingMode :: string
  globalIndexes :: "(string \<Rightarrow> GlobalSecondaryIndex \<times> attribute list) list"
  localIndexes :: "(string \<Rightarrow> LocalSecondaryIndex \<times> attribute list) list"
  projectionType :: string
  readCapacityUnits :: "64 word"
  streamViewType :: string
  writeCapacityUnits :: "64 word"

text \<open>
  An option value is a \<open>tableIndexFunc\<close> built by one of the nine constructors; the
  interfaces \<open>TableOption\<close> and \<open>IndexOption\<close> take the unexported \<open>*tableOptions\<close>, so
  no other implementation exists. \<open>ApplyTable\<close> and \<open>ApplyIndex\<close> both run the same
  closure, so one datatype serves both interfaces. Go's static types admit
  \<open>WithAttr\<close>, \<open>WithHashKey\<close>, \<open>WithReadCapacity\<close> and \<open>WithWriteCapacity\<close> in an index's
  option list and every constructor but \<open>WithAttr\<close> in a table's; the datatype is the
  union, which a type assertion reaches. A \<open>nil\<close> element of an option list makes the
  fold panic in Go; the lists of the model hold constructed options only.
\<close>

datatype TableOption =
    WithAttr string string
  | WithBillingMode string
  | WithGlobalSecondaryIndex string string "TableOption list"
  | WithHashKey string string
  | WithLocalSecondaryIndex string string "TableOption list"
  | WithRangeKey string string
  | WithReadCapacity "64 word"
  | WithStreamSpecification string
  | WithWriteCapacity "64 word"

section \<open>Rendering helpers (create.go, lines 128-206)\<close>

fun makeAttributeNames :: "attribute list \<Rightarrow> string list" where
  "makeAttributeNames [] = []"
| "makeAttributeNames (item # rest) = Name item # makeAttributeNames rest"

definition makeAttributeDefinitions :: "tableOptions \<Rightarrow> AttributeDefinition list" where
  "makeAttributeDefinitions options =
     (let items = [];
          items = (case hashKey (keys options) of
                     None \<Rightarrow> items
                   | Some k \<Rightarrow> items @ [\<lparr>AttributeName = attributeName k,
                                         AttributeType = attributeType k\<rparr>]);
          items = (case rangeKey (keys options) of
                     None \<Rightarrow> items
                   | Some k \<Rightarrow> items @ [\<lparr>AttributeName = attributeName k,
                                         AttributeType = attributeType k\<rparr>])
      in items)"

definition makeKeySchemaElements :: "tableOptions \<Rightarrow> KeySchemaElement list" where
  "makeKeySchemaElements options =
     (let items = [];
          items = (case hashKey (keys options) of
                     None \<Rightarrow> items
                   | Some k \<Rightarrow> items @ [\<lparr>kseAttributeName = attributeName k,
                                         KeyType = KeyTypeHash\<rparr>]);
          items = (case rangeKey (keys options) of
                     None \<Rightarrow> items
                   | Some k \<Rightarrow> items @ [\<lparr>kseAttributeName = attributeName k,
                                         KeyType = KeyTypeRange\<rparr>])
      in items)"

definition makeProvisionedThroughput :: "tableOptions \<Rightarrow> ProvisionedThroughput option" where
  "makeProvisionedThroughput options =
     (if billingMode options = BillingModePayPerRequest then None
      else Some \<lparr>ReadCapacityUnits = readCapacityUnits options,
                 WriteCapacityUnits = writeCapacityUnits options\<rparr>)"

section \<open>Folding options into a configuration (create.go, lines 57-161, 208-227)\<close>

text \<open>
  \<open>initialOptions\<close> is the struct literal at the head of \<open>makeTableOptions\<close>; every field
  it does not name has Go's zero value. \<open>applyOptions\<close> is the \<open>for\<close> loop of
  \<open>makeTableOptions\<close> (the same in both arms of its type switch), \<open>ApplyTable\<close> runs
  the closure of one option on the configuration.
\<close>

definition initialOptions :: tableOptions where
  "initialOptions =
     \<lparr>attributes = [],
      keys = \<lparr>hashKey = None, rangeKey = None\<rparr>,
      billingMode = DefaultBillingMode,
      globalIndexes = [],
      localIndexes = [],
      projectionType = [],
      readCapacityUnits = DefaultReadCapacity,
      streamViewType = [],
      writeCapacityUnits = DefaultWriteCapacity\<rparr>"

fun ApplyTable :: "TableOption \<Rightarrow> tableOptions \<Rightarrow> tableOptions"
  and applyOptions :: "TableOption list \<Rightarrow> tableOptions \<Rightarrow> tableOptions"
  and makeTableOptions :: "TableOption list \<Rightarrow> tableOptions"
where
  "ApplyTable (WithAttr n t) oo =
     oo\<lparr>attributes := attributes oo @ [\<lparr>Name = n, Type = t\<rparr>]\<rparr>"
| "ApplyTable (WithBillingMode mode) oo = oo\<lparr>billingMode := mode\<rparr>"
| "ApplyTable (WithGlobalSecondaryIndex indexName projType opts) oo =
     oo\<lparr>globalIndexes := globalIndexes oo @
        [\<lambda>bm. let options = (makeTableOptions opts)\<lparr>billingMode := bm\<rparr>
              in (\<lparr>gsiIndexName = indexName,
                   gsiKeySchema = makeKeySchemaElements options,
                   gsiProjection =
                     \<lparr>NonKeyAttributes = makeAttributeNames (attributes options),
                      ProjectionType = projType\<rparr>,
                   gsiProvisionedThroughput = makeProvisionedThroughput options\<rparr>,
                  attributes options)]\<rparr>"
| "ApplyTable (WithHashKey n t) oo =
     oo\<lparr>keys := (keys oo)\<lparr>hashKey := Some \<lparr>attributeName = n, attributeType = t\<rparr>\<rparr>\<rparr>"
| "ApplyTable (WithLocalSecondaryIndex indexName projType opts) oo =
     oo\<lparr>localIndexes := localIndexes oo @
        [\<lambda>bm. let options = (makeTableOptions opts)\<lparr>billingMode := bm\<rparr>
              in (\<lparr>lsiIndexName = indexName,
                   lsiKeySchema = makeKeySchemaElements options,
                   lsiProjection =
                     \<lparr>NonKeyAttributes = makeAttributeNames (attributes options),
                      ProjectionType = projType\<rparr>\<rparr>,
                  attributes options)]\<rparr>"
| "ApplyTable (WithRangeKey n t) oo =
     oo\<lparr>keys := (keys oo)\<lparr>rangeKey := Some \<lparr>attributeName = n, attributeType = t\<rparr>\<rparr>\<rparr>"
| "ApplyTable (WithReadCapacity rcap) oo = oo\<lparr>readCapacityUnits := rcap\<rparr>"
| "ApplyTable (WithStreamSpecification svt) oo = oo\<lparr>streamViewType := svt\<rparr>"
| "ApplyTable (WithWriteCapacity wcap) oo = oo\<lparr>writeCapacityUnits := wcap\<rparr>"
| "applyOptions [] oo = oo"
| "applyOptions (opt # rest) oo = applyOptions rest (ApplyTable opt oo)"
| "makeTableOptions opts = applyOptions opts initialOptions"

section \<open>Rendering the request (create.go, lines 229-298)\<close>

text \<open>
  \<open>merge\<close>: the first loop copies every definition and records its name in \<open>seen\<close>; the
  second appends each attribute whose name is not yet in \<open>seen\<close>.
\<close>

fun mergeDefinitions ::
  "AttributeDefinition list \<Rightarrow> string set \<times> AttributeDefinition list
     \<Rightarrow> string set \<times> AttributeDefinition list" where
  "mergeDefinitions [] (seen, merged) = (seen, merged)"
| "mergeDefinitions (item # rest) (seen, merged) =
     mergeDefinitions rest (insert (AttributeName item) seen, merged @ [item])"

fun mergeAttributes ::
  "attribute list \<Rightarrow> string set \<times> AttributeDefinition list
     \<Rightarrow> string set \<times> AttributeDefinition list" where
  "mergeAttributes [] (seen, merged) = (seen, merged)"
| "mergeAttributes (attr # rest) (seen, merged) =
     (if Name attr \<in> seen then mergeAttributes rest (seen, merged)
      else mergeAttributes rest
             (insert (Name attr) seen,
              merged @ [\<lparr>AttributeName = Name attr, AttributeType = Type attr\<rparr>]))"

definition merge :: "AttributeDefinition list \<Rightarrow> attribute list \<Rightarrow> AttributeDefinition list" where
  "merge definitions attrs = snd (mergeAttributes attrs (mergeDefinitions definitions ({}, [])))"

fun globalIndexLoop ::
  "(string \<Rightarrow> GlobalSecondaryIndex \<times> attribute list) list \<Rightarrow> string
     \<Rightarrow> CreateTableInput \<Rightarrow> CreateTableInput" where
  "globalIndexLoop [] bm input = input"
| "globalIndexLoop (fn # rest) bm input =
     (case fn bm of (gsi, attrs) \<Rightarrow>
        globalIndexLoop rest bm
          (input\<lparr>GlobalSecondaryIndexes := GlobalSecondaryIndexes input @ [gsi],
                 AttributeDefinitions := merge (AttributeDefinitions input) attrs\<rparr>))"

fun localIndexLoop ::
  "(string \<Rightarrow> LocalSecondaryIndex \<times> attribute list) list \<Rightarrow> string
     \<Rightarrow> CreateTableInput \<Rightarrow> CreateTableInput" where
  "localIndexLoop [] bm input = input"
| "localIndexLoop (fn # rest) bm input =
     (case fn bm of (lsi, attrs) \<Rightarrow>
        localIndexLoop rest bm
          (input\<lparr>LocalSecondaryIndexes := LocalSecondaryIndexes input @ [lsi],
                 AttributeDefinitions := merge (AttributeDefinitions input) attrs\<rparr>))"

definition makeCreateTableInput :: "string \<Rightarrow> TableOption list \<Rightarrow> CreateTableInput" where
  "makeCreateTableInput tableName opts =
     (let options = makeTableOptions opts;
          input = \<lparr>AttributeDefinitions = makeAttributeDefinitions options,
                   BillingMode = billingMode options,
                   GlobalSecondaryIndexes = [],
                   KeySchema = makeKeySchemaElements options,
                   LocalSecondaryIndexes = [],
                   ProvisionedThroughput = makeProvisionedThroughput options,
                   StreamSpecification = None,
                   TableName = tableName\<rparr>;
          input = (if streamViewType options \<noteq> []
                   then input\<lparr>StreamSpecification :=
                                 Some \<lparr>StreamEnabled = True,
                                       StreamViewType = streamViewType options\<rparr>\<rparr>
                   else input);
          input = globalIndexLoop (globalIndexes options) (billingMode options) input;
          input = localIndexLoop (localIndexes options) (billingMode options) input
      in input)"

section \<open>The table handle (table.go; create.go, lines 259-273)\<close>

text \<open>
  A Go \<open>error\<close> is either a value implementing \<open>awserr.Error\<close>, with its code and
  message, or any other error value. The client is the collaborator: it takes the
  caller's context and the request, and may change the service's state \<open>'s\<close>; the
  output it returns beside the error is discarded by both callers.
\<close>

datatype goerror = AwsError string string | PlainError string

fun asAwsError :: "goerror \<Rightarrow> (string \<times> string) option" where
  "asAwsError (AwsError code msg) = Some (code, msg)"
| "asAwsError (PlainError msg) = None"

record ('s, 'c) DynamoDBAPI =
  CreateTableWithContext :: "'c \<Rightarrow> CreateTableInput \<Rightarrow> 's \<Rightarrow> goerror option \<times> 's"
  DeleteTableWithContext :: "'c \<Rightarrow> DeleteTableInput \<Rightarrow> 's \<Rightarrow> goerror option \<times> 's"

record ('s, 'c) Table =
  api :: "('s, 'c) DynamoDBAPI"
  tableName :: string

definition New :: "('s, 'c) DynamoDBAPI \<Rightarrow> string \<Rightarrow> ('s, 'c) Table" where
  "New a name = \<lparr>api = a, tableName = name\<rparr>"

definition CreateTableIfNotExists ::
  "('s, 'c) Table \<Rightarrow> 'c \<Rightarrow> string \<Rightarrow> string \<Rightarrow> TableOption list \<Rightarrow> 's
     \<Rightarrow> goerror option \<times> 's" where
  "CreateTableIfNotExists t ctx hashKeyName hashKeyType opts s =
     (let mergedOpts = [];
          mergedOpts = mergedOpts @ [WithHashKey hashKeyName hashKeyType];
          mergedOpts = mergedOpts @ opts;
          input = makeCreateTableInput (tableName t) mergedOpts
      in case CreateTableWithContext (api t) ctx input s of
           (None, s') \<Rightarrow> (None, s')
         | (Some err, s') \<Rightarrow>
             (case asAwsError err of
                Some (code, msg) \<Rightarrow>
                  if code = ErrCodeResourceInUseException then (None, s')
                  else (Some err, s')
              | None \<Rightarrow> (Some err, s')))"

definition DeleteTableIfExists :: "('s, 'c) Table \<Rightarrow> 'c \<Rightarrow> 's \<Rightarrow> goerror option \<times> 's" where
  "DeleteTableIfExists t ctx s =
     (let input = \<lparr>dtiTableName = tableName t\<rparr>
      in case DeleteTableWithContext (api t) ctx input s of
           (None, s') \<Rightarrow> (None, s')
         | (Some err, s') \<Rightarrow>
             (case asAwsError err of
                Some (code, msg) \<Rightarrow>
                  if code = ErrCodeResourceNotFoundException then (None, s')
                  else (Some err, s')
              | None \<Rightarrow> (Some err, s')))"

text \<open>
  The test double of create\_test.go: \<open>Mock\<close> answers both calls with its fixed \<open>err\<close>
  and keeps no state.
\<close>

definition Mock :: "goerror option \<Rightarrow> (unit, unit) DynamoDBAPI" where
  "Mock err =
     \<lparr>CreateTableWithContext = (\<lambda>ctx input s. (err, s)),
      DeleteTableWithContext = (\<lambda>ctx input s. (err, s))\<rparr>"

text \<open>
  A collaborator with state, for running the handle twice: the service is the list of
  the requests it has received so far and the names of its tables. Creating a table
  that exists answers "resource in use", deleting one that does not answers
  "resource not found".
\<close>

record service =
  tables :: "string list"
  createCalls :: "CreateTableInput list"
  deleteCalls :: "DeleteTableInput list"

definition serviceAPI :: "(service, unit) DynamoDBAPI" where
  "serviceAPI =
     \<lparr>CreateTableWithContext = (\<lambda>ctx input s.
        let s = s\<lparr>createCalls := createCalls s @ [input]\<rparr>
        in if TableName input \<in> set (tables s)
           then (Some (AwsError ErrCodeResourceInUseException ''table exists''), s)
           else (None, s\<lparr>tables := tables s @ [TableName input]\<rparr>)),
      DeleteTableWithContext = (\<lambda>ctx input s.
        let s = s\<lparr>deleteCalls := deleteCalls s @ [input]\<rparr>
        in if dtiTableName input \<in> set (tables s)
           then (None, s\<lparr>tables := removeAll (dtiTableName input) (tables s)\<rparr>)
           else (Some (AwsError ErrCodeResourceNotFoundException ''no such table''), s))\<rparr>"

definition emptyService :: service where
  "emptyService = \<lparr>tables = [], createCalls = [], deleteCalls = []\<rparr>"

section \<open>Reading the configuration off the option sequence\<close>

text \<open>
  What one option contributes to each field of the configuration, and the bodies of the
  two index closures (create.go, lines 84-97 and 112-124) under a name of their own.
  \<open>lastOr d xs\<close> is the last element of \<open>xs\<close>, or \<open>d\<close> when there is none.
  \<open>dedupByName\<close> keeps, for every attribute name, the first definition that carries it.
\<close>

fun billingModeOf :: "TableOption \<Rightarrow> string option" where
  "billingModeOf (WithBillingMode mode) = Some mode"
| "billingModeOf _ = None"

fun hashKeyOf :: "TableOption \<Rightarrow> key option" where
  "hashKeyOf (WithHashKey n t) = Some \<lparr>attributeName = n, attributeType = t\<rparr>"
| "hashKeyOf _ = None"

fun rangeKeyOf :: "TableOption \<Rightarrow> key option" where
  "rangeKeyOf (WithRangeKey n t) = Some \<lparr>attributeName = n, attributeType = t\<rparr>"
| "rangeKeyOf _ = None"

fun readCapacityOf :: "TableOption \<Rightarrow> 64 word option" where
  "readCapacityOf (WithReadCapacity rcap) = Some rcap"
| "readCapacityOf _ = None"

fun writeCapacityOf :: "TableOption \<Rightarrow> 64 word option" where
  "writeCapacityOf (WithWriteCapacity wcap) = Some wcap"
| "writeCapacityOf _ = None"

fun streamViewTypeOf :: "TableOption \<Rightarrow> string option" where
  "streamViewTypeOf (WithStreamSpecification svt) = Some svt"
| "streamViewTypeOf _ = None"

fun attrOf :: "TableOption \<Rightarrow> attribute option" where
  "attrOf (WithAttr n t) = Some \<lparr>Name = n, Type = t\<rparr>"
| "attrOf _ = None"

fun globalIndexOf :: "TableOption \<Rightarrow> (string \<times> string \<times> TableOption list) option" where
  "globalIndexOf (WithGlobalSecondaryIndex n p opts) = Some (n, p, opts)"
| "globalIndexOf _ = None"

fun localIndexOf :: "TableOption \<Rightarrow> (string \<times> string \<times> TableOption list) option" where
  "localIndexOf (WithLocalSecondaryIndex n p opts) = Some (n, p, opts)"
| "localIndexOf _ = None"

definition lastOr :: "'a \<Rightarrow> 'a list \<Rightarrow> 'a" where
  "lastOr d xs = last (d # xs)"

definition globalIndexFn ::
  "string \<times> string \<times> TableOption list \<Rightarrow> string \<Rightarrow> GlobalSecondaryIndex \<times> attribute list" where
  "globalIndexFn decl bm =
     (case decl of (indexName, projType, opts) \<Rightarrow>
        let options = (makeTableOptions opts)\<lparr>billingMode := bm\<rparr>
        in (\<lparr>gsiIndexName = indexName,
             gsiKeySchema = makeKeySchemaElements options,
             gsiProjection =
               \<lparr>NonKeyAttributes = makeAttributeNames (attributes options),
                ProjectionType = projType\<rparr>,
             gsiProvisionedThroughput = makeProvisionedThroughput options\<rparr>,
            attributes options))"

definition localIndexFn ::
  "string \<times> string \<times> TableOption list \<Rightarrow> string \<Rightarrow> LocalSecondaryIndex \<times> attribute list" where
  "localIndexFn decl bm =
     (case decl of (indexName, projType, opts) \<Rightarrow>
        let options = (makeTableOptions opts)\<lparr>billingMode := bm\<rparr>
        in (\<lparr>lsiIndexName = indexName,
             lsiKeySchema = makeKeySchemaElements options,
             lsiProjection =
               \<lparr>NonKeyAttributes = makeAttributeNames (attributes options),
                ProjectionType = projType\<rparr>\<rparr>,
            attributes options))"

definition toDefinition :: "attribute \<Rightarrow> AttributeDefinition" where
  "toDefinition attr = \<lparr>AttributeName = Name attr, AttributeType = Type attr\<rparr>"

fun dedupByName :: "AttributeDefinition list \<Rightarrow> AttributeDefinition list" where
  "dedupByName [] = []"
| "dedupByName (d # ds) =
     d # dedupByName (filter (\<lambda>e. AttributeName e \<noteq> AttributeName d) ds)"

definition indexAttributes :: "string \<times> string \<times> TableOption list \<Rightarrow> attribute list" where
  "indexAttributes decl = (case decl of (indexName, projType, opts) \<Rightarrow> List.map_filter attrOf opts)"

definition declaredIndexAttributes :: "TableOption list \<Rightarrow> attribute list" where
  "declaredIndexAttributes opts =
     concat (map indexAttributes (List.map_filter globalIndexOf opts)) @
     concat (map indexAttributes (List.map_filter localIndexOf opts))"

text \<open>
  One rendered index entry, written out from the index's own declaration and the billing
  mode handed to its closure.
\<close>

definition renderGlobalIndex ::
  "string \<Rightarrow> string \<times> string \<times> TableOption list \<Rightarrow> GlobalSecondaryIndex" where
  "renderGlobalIndex bm decl =
     (case decl of (indexName, projType, opts) \<Rightarrow>
        \<lparr>gsiIndexName = indexName,
         gsiKeySchema = makeKeySchemaElements (makeTableOptions opts),
         gsiProjection = \<lparr>NonKeyAttributes = map Name (List.map_filter attrOf opts),
                          ProjectionType = projType\<rparr>,
         gsiProvisionedThroughput =
           (if bm = BillingModePayPerRequest then None
            else Some \<lparr>ReadCapacityUnits =
                         lastOr DefaultReadCapacity (List.map_filter readCapacityOf opts),
                       WriteCapacityUnits =
                         lastOr DefaultWriteCapacity (List.map_filter writeCapacityOf opts)\<rparr>)\<rparr>)"

definition renderLocalIndex :: "string \<times> string \<times> TableOption list \<Rightarrow> LocalSecondaryIndex" where
  "renderLocalIndex decl =
     (case decl of (indexName, projType, opts) \<Rightarrow>
        \<lparr>lsiIndexName = indexName,
         lsiKeySchema = makeKeySchemaElements (makeTableOptions opts),
         lsiProjection = \<lparr>NonKeyAttributes = map Name (List.map_filter attrOf opts),
                          ProjectionType = projType\<rparr>\<rparr>)"

text \<open>
  \<open>declaredDefinitions\<close> lists every attribute declaration in the order the renderer
  meets it: the table's hash key, its range key, the \<open>WithAttr\<close> attributes of the global
  indexes, then those of the local indexes. \<open>claimedAttributeDefinitions\<close> is the list the
  specification describes, which also counts the key-schema attributes of every index.
\<close>

definition declaredDefinitions :: "TableOption list \<Rightarrow> AttributeDefinition list" where
  "declaredDefinitions opts =
     makeAttributeDefinitions (makeTableOptions opts) @
     map toDefinition (declaredIndexAttributes opts)"

definition claimedAttributeDefinitions :: "TableOption list \<Rightarrow> AttributeDefinition list" where
  "claimedAttributeDefinitions opts =
     dedupByName
       (makeAttributeDefinitions (makeTableOptions opts) @
        concat (map (\<lambda>(indexName, projType, iopts).
                       makeAttributeDefinitions (makeTableOptions iopts) @
                       map toDefinition (List.map_filter attrOf iopts))
                    (List.map_filter globalIndexOf opts @ List.map_filter localIndexOf opts)))"

section \<open>The fold over the options\<close>

declare makeTableOptions.simps [simp del]

lemma lastOr_Nil: "lastOr d [] = d"
  by (simp add: lastOr_def)

lemma lastOr_Cons: "lastOr d (x # xs) = lastOr x xs"
  by (simp add: lastOr_def)

lemma lastOr_append: "lastOr d (xs @ ys) = lastOr (lastOr d xs) ys"
  by (induction xs arbitrary: d) (simp_all add: lastOr_Nil lastOr_Cons)

lemma map_filter_append: "List.map_filter f (xs @ ys) = List.map_filter f xs @ List.map_filter f ys"
  by (simp add: List.map_filter_def)

lemma applyOptions_append:
  "applyOptions (xs @ ys) oo = applyOptions ys (applyOptions xs oo)"
  by (induction xs arbitrary: oo) simp_all

lemma billingMode_ApplyTable:
  "billingMode (ApplyTable x oo) = (case billingModeOf x of None \<Rightarrow> billingMode oo | Some m \<Rightarrow> m)"
  by (cases x) simp_all

lemma billingMode_applyOptions:
  "billingMode (applyOptions opts oo) = lastOr (billingMode oo) (List.map_filter billingModeOf opts)"
proof (induction opts arbitrary: oo)
  case Nil
  show ?case by (simp add: lastOr_Nil)
next
  case (Cons x opts)
  show ?case
    by (cases "billingModeOf x")
       (simp_all add: Cons.IH billingMode_ApplyTable lastOr_Cons)
qed

lemma readCapacity_ApplyTable:
  "readCapacityUnits (ApplyTable x oo) =
     (case readCapacityOf x of None \<Rightarrow> readCapacityUnits oo | Some c \<Rightarrow> c)"
  by (cases x) simp_all

lemma readCapacity_applyOptions:
  "readCapacityUnits (applyOptions opts oo) =
     lastOr (readCapacityUnits oo) (List.map_filter readCapacityOf opts)"
proof (induction opts arbitrary: oo)
  case Nil
  show ?case by (simp add: lastOr_Nil)
next
  case (Cons x opts)
  show ?case
    by (cases "readCapacityOf x")
       (simp_all add: Cons.IH readCapacity_ApplyTable lastOr_Cons)
qed

lemma writeCapacity_ApplyTable:
  "writeCapacityUnits (ApplyTable x oo) =
     (case writeCapacityOf x of None \<Rightarrow> writeCapacityUnits oo | Some c \<Rightarrow> c)"
  by (cases x) simp_all

lemma writeCapacity_applyOptions:
  "writeCapacityUnits (applyOptions opts oo) =
     lastOr (writeCapacityUnits oo) (List.map_filter writeCapacityOf opts)"
proof (induction opts arbitrary: oo)
  case Nil
  show ?case by (simp add: lastOr_Nil)
next
  case (Cons x opts)
  show ?case
    by (cases "writeCapacityOf x")
       (simp_all add: Cons.IH writeCapacity_ApplyTable lastOr_Cons)
qed

lemma streamViewType_ApplyTable:
  "streamViewType (ApplyTable x oo) =
     (case streamViewTypeOf x of None \<Rightarrow> streamViewType oo | Some c \<Rightarrow> c)"
  by (cases x) simp_all

lemma streamViewType_applyOptions:
  "streamViewType (applyOptions opts oo) =
     lastOr (streamViewType oo) (List.map_filter streamViewTypeOf opts)"
proof (induction opts arbitrary: oo)
  case Nil
  show ?case by (simp add: lastOr_Nil)
next
  case (Cons x opts)
  show ?case
    by (cases "streamViewTypeOf x")
       (simp_all add: Cons.IH streamViewType_ApplyTable lastOr_Cons)
qed

lemma hashKey_ApplyTable:
  "hashKey (keys (ApplyTable x oo)) =
     (case hashKeyOf x of None \<Rightarrow> hashKey (keys oo) | Some k \<Rightarrow> Some k)"
  by (cases x) simp_all

lemma hashKey_applyOptions:
  "hashKey (keys (applyOptions opts oo)) =
     lastOr (hashKey (keys oo)) (map Some (List.map_filter hashKeyOf opts))"
proof (induction opts arbitrary: oo)
  case Nil
  show ?case by (simp add: lastOr_Nil)
next
  case (Cons x opts)
  show ?case
    by (cases "hashKeyOf x")
       (simp_all add: Cons.IH hashKey_ApplyTable lastOr_Cons)
qed

lemma rangeKey_ApplyTable:
  "rangeKey (keys (ApplyTable x oo)) =
     (case rangeKeyOf x of None \<Rightarrow> rangeKey (keys oo) | Some k \<Rightarrow> Some k)"
  by (cases x) simp_all

lemma rangeKey_applyOptions:
  "rangeKey (keys (applyOptions opts oo)) =
     lastOr (rangeKey (keys oo)) (map Some (List.map_filter rangeKeyOf opts))"
proof (induction opts arbitrary: oo)
  case Nil
  show ?case by (simp add: lastOr_Nil)
next
  case (Cons x opts)
  show ?case
    by (cases "rangeKeyOf x")
       (simp_all add: Cons.IH rangeKey_ApplyTable lastOr_Cons)
qed

lemma attributes_ApplyTable:
  "attributes (ApplyTable x oo) =
     (case attrOf x of None \<Rightarrow> attributes oo | Some a \<Rightarrow> attributes oo @ [a])"
  by (cases x) simp_all

lemma attributes_applyOptions:
  "attributes (applyOptions opts oo) = attributes oo @ List.map_filter attrOf opts"
proof (induction opts arbitrary: oo)
  case Nil
  show ?case by simp
next
  case (Cons x opts)
  show ?case
    by (cases "attrOf x")
       (simp_all add: Cons.IH attributes_ApplyTable)
qed

lemma globalIndexes_ApplyTable:
  "globalIndexes (ApplyTable x oo) =
     (case globalIndexOf x of None \<Rightarrow> globalIndexes oo
      | Some d \<Rightarrow> globalIndexes oo @ [globalIndexFn d])"
  by (cases x) (simp_all add: globalIndexFn_def fun_eq_iff)

lemma globalIndexes_applyOptions:
  "globalIndexes (applyOptions opts oo) =
     globalIndexes oo @ map globalIndexFn (List.map_filter globalIndexOf opts)"
proof (induction opts arbitrary: oo)
  case Nil
  show ?case by simp
next
  case (Cons x opts)
  show ?case
    by (cases "globalIndexOf x")
       (simp_all add: Cons.IH globalIndexes_ApplyTable)
qed

lemma localIndexes_ApplyTable:
  "localIndexes (ApplyTable x oo) =
     (case localIndexOf x of None \<Rightarrow> localIndexes oo
      | Some d \<Rightarrow> localIndexes oo @ [localIndexFn d])"
  by (cases x) (simp_all add: localIndexFn_def fun_eq_iff)

lemma localIndexes_applyOptions:
  "localIndexes (applyOptions opts oo) =
     localIndexes oo @ map localIndexFn (List.map_filter localIndexOf opts)"
proof (induction opts arbitrary: oo)
  case Nil
  show ?case by simp
next
  case (Cons x opts)
  show ?case
    by (cases "localIndexOf x")
       (simp_all add: Cons.IH localIndexes_ApplyTable)
qed

lemma mergeDefinitions_eq:
  "mergeDefinitions defs (seen, merged) =
     (seen \<union> AttributeName ` set defs, merged @ defs)"
  by (induction defs arbitrary: seen merged) auto

lemma mergeAttributes_append:
  "mergeAttributes (as @ bs) st = mergeAttributes bs (mergeAttributes as st)"
proof (induction as arbitrary: st)
  case Nil
  show ?case by (cases st) simp
next
  case (Cons a as)
  show ?case by (cases st) (simp add: Cons.IH)
qed

lemma mergeAttributes_seen:
  "fst st = AttributeName ` set (snd st) \<Longrightarrow>
   fst (mergeAttributes as st) = AttributeName ` set (snd (mergeAttributes as st))"
proof (induction as arbitrary: st)
  case Nil
  then show ?case by (cases st) simp
next
  case (Cons a as)
  obtain seen merged where st: "st = (seen, merged)" by (cases st)
  with Cons.prems have seen: "seen = AttributeName ` set merged" by simp
  show ?case
  proof (cases "Name a \<in> seen")
    case True
    with st seen show ?thesis using Cons.IH [of "(seen, merged)"] by simp
  next
    case False
    let ?st = "(insert (Name a) seen,
                merged @ [\<lparr>AttributeName = Name a, AttributeType = Type a\<rparr>])"
    have "fst ?st = AttributeName ` set (snd ?st)" using seen by simp
    from Cons.IH [OF this] show ?thesis using False st by simp
  qed
qed

lemma merge_Nil: "merge defs [] = defs"
  by (simp add: merge_def mergeDefinitions_eq)

lemma merge_merge: "merge (merge defs as) bs = merge defs (as @ bs)"
proof -
  let ?st0 = "mergeDefinitions defs ({}, [])"
  let ?st1 = "mergeAttributes as ?st0"
  have "fst ?st0 = AttributeName ` set (snd ?st0)"
    by (simp add: mergeDefinitions_eq)
  then have "fst ?st1 = AttributeName ` set (snd ?st1)"
    by (rule mergeAttributes_seen)
  then have "mergeDefinitions (merge defs as) ({}, []) = ?st1"
    by (simp add: mergeDefinitions_eq merge_def prod_eq_iff)
  then show ?thesis
    by (simp add: merge_def mergeAttributes_append)
qed

lemma mergeAttributes_eq:
  "snd (mergeAttributes attrs (seen, merged)) =
     merged @ dedupByName (filter (\<lambda>d. AttributeName d \<notin> seen) (map toDefinition attrs))"
proof (induction attrs arbitrary: seen merged)
  case Nil
  show ?case by simp
next
  case (Cons a attrs)
  show ?case
  proof (cases "Name a \<in> seen")
    case True
    then show ?thesis by (simp add: Cons.IH toDefinition_def)
  next
    case False
    then show ?thesis
      by (simp add: Cons.IH toDefinition_def conj_commute)
  qed
qed

lemma merge_eq:
  "merge defs attrs =
     defs @ dedupByName (filter (\<lambda>d. AttributeName d \<notin> AttributeName ` set defs)
                           (map toDefinition attrs))"
  by (simp add: merge_def mergeDefinitions_eq mergeAttributes_eq)

lemma set_dedupByName_subset: "set (dedupByName ds) \<subseteq> set ds"
  by (induction ds rule: dedupByName.induct) auto

lemma distinct_dedupByName: "distinct (map AttributeName (dedupByName ds))"
proof (induction ds rule: dedupByName.induct)
  case 1
  show ?case by simp
next
  case (2 d ds)
  have "AttributeName d \<notin> AttributeName ` set (dedupByName (filter (\<lambda>e. AttributeName e \<noteq> AttributeName d) ds))"
    using set_dedupByName_subset [of "filter (\<lambda>e. AttributeName e \<noteq> AttributeName d) ds"]
    by auto
  with "2.IH" show ?case by simp
qed

lemma find_filter_weaker:
  "(\<And>x. P x \<Longrightarrow> Q x) \<Longrightarrow> find P (filter Q xs) = find P xs"
  by (induction xs) auto

lemma dedupByName_first:
  "d \<in> set (dedupByName ds) \<Longrightarrow> find (\<lambda>e. AttributeName e = AttributeName d) ds = Some d"
proof (induction ds rule: dedupByName.induct)
  case 1
  then show ?case by simp
next
  case (2 x xs)
  show ?case
  proof (cases "d = x")
    case True
    then show ?thesis by simp
  next
    case False
    with "2.prems" have mem: "d \<in> set (dedupByName (filter (\<lambda>e. AttributeName e \<noteq> AttributeName x) xs))"
      by simp
    then have ne: "AttributeName d \<noteq> AttributeName x"
      using set_dedupByName_subset [of "filter (\<lambda>e. AttributeName e \<noteq> AttributeName x) xs"]
      by auto
    from "2.IH" [OF mem]
    have "find (\<lambda>e. AttributeName e = AttributeName d)
            (filter (\<lambda>e. AttributeName e \<noteq> AttributeName x) xs) = Some d" .
    moreover have "find (\<lambda>e. AttributeName e = AttributeName d)
            (filter (\<lambda>e. AttributeName e \<noteq> AttributeName x) xs)
          = find (\<lambda>e. AttributeName e = AttributeName d) xs"
      using ne by (intro find_filter_weaker) auto
    ultimately show ?thesis using ne by simp
  qed
qed

lemma dedupByName_id: "distinct (map AttributeName ds) \<Longrightarrow> dedupByName ds = ds"
proof (induction ds)
  case Nil
  show ?case by simp
next
  case (Cons d ds)
  from Cons.prems have "AttributeName d \<notin> AttributeName ` set ds" by simp
  then have "\<forall>x\<in>set ds. AttributeName x \<noteq> AttributeName d"
    by (metis imageI)
  then have "filter (\<lambda>e. AttributeName e \<noteq> AttributeName d) ds = ds"
    by (simp only: filter_True)
  with Cons show ?case by simp
qed

lemma dedupByName_append:
  "dedupByName (xs @ ys) =
     dedupByName xs @ dedupByName (filter (\<lambda>d. AttributeName d \<notin> AttributeName ` set xs) ys)"
proof (induction xs arbitrary: ys rule: dedupByName.induct)
  case 1
  show ?case by simp
next
  case (2 d ds)
  let ?Q = "\<lambda>e. AttributeName e \<noteq> AttributeName d"
  have pt: "\<And>e. (?Q e \<and> AttributeName e \<notin> AttributeName ` set (filter ?Q ds)) =
                 (AttributeName e \<notin> AttributeName ` set (d # ds))"
    by (auto simp: image_iff)
  have "dedupByName ((d # ds) @ ys) = d # dedupByName (filter ?Q ds @ filter ?Q ys)"
    by simp
  also have "dedupByName (filter ?Q ds @ filter ?Q ys) = dedupByName (filter ?Q ds) @
      dedupByName (filter (\<lambda>e. AttributeName e \<notin> AttributeName ` set (filter ?Q ds)) (filter ?Q ys))"
    by (rule "2.IH")
  also have "filter (\<lambda>e. AttributeName e \<notin> AttributeName ` set (filter ?Q ds)) (filter ?Q ys)
     = filter (\<lambda>e. AttributeName e \<notin> AttributeName ` set (d # ds)) ys"
    by (simp only: filter_filter pt)
  finally show ?case by simp
qed

lemma globalIndexLoop_eq:
  "globalIndexLoop fns bm input =
     input\<lparr>GlobalSecondaryIndexes := GlobalSecondaryIndexes input @ map (\<lambda>fn. fst (fn bm)) fns,
           AttributeDefinitions :=
             merge (AttributeDefinitions input) (concat (map (\<lambda>fn. snd (fn bm)) fns))\<rparr>"
proof (induction fns arbitrary: input)
  case Nil
  show ?case by (simp add: merge_Nil)
next
  case (Cons fn fns)
  show ?case
    by (cases "fn bm") (simp add: Cons.IH merge_merge)
qed

lemma localIndexLoop_eq:
  "localIndexLoop fns bm input =
     input\<lparr>LocalSecondaryIndexes := LocalSecondaryIndexes input @ map (\<lambda>fn. fst (fn bm)) fns,
           AttributeDefinitions :=
             merge (AttributeDefinitions input) (concat (map (\<lambda>fn. snd (fn bm)) fns))\<rparr>"
proof (induction fns arbitrary: input)
  case Nil
  show ?case by (simp add: merge_Nil)
next
  case (Cons fn fns)
  show ?case
    by (cases "fn bm") (simp add: Cons.IH merge_merge)
qed

lemma attributes_makeTableOptions:
  "attributes (makeTableOptions opts) = List.map_filter attrOf opts"
  by (simp add: makeTableOptions.simps attributes_applyOptions initialOptions_def)

lemma snd_globalIndexFn: "snd (globalIndexFn decl bm) = indexAttributes decl"
  by (cases decl)
     (simp add: globalIndexFn_def indexAttributes_def Let_def attributes_makeTableOptions)

lemma snd_localIndexFn: "snd (localIndexFn decl bm) = indexAttributes decl"
  by (cases decl)
     (simp add: localIndexFn_def indexAttributes_def Let_def attributes_makeTableOptions)

lemma globalIndexes_makeTableOptions:
  "globalIndexes (makeTableOptions opts) = map globalIndexFn (List.map_filter globalIndexOf opts)"
  by (simp add: makeTableOptions.simps globalIndexes_applyOptions initialOptions_def)

lemma localIndexes_makeTableOptions:
  "localIndexes (makeTableOptions opts) = map localIndexFn (List.map_filter localIndexOf opts)"
  by (simp add: makeTableOptions.simps localIndexes_applyOptions initialOptions_def)

lemma makeCreateTableInput_BillingMode:
  "BillingMode (makeCreateTableInput tn opts) = billingMode (makeTableOptions opts)"
  by (simp add: makeCreateTableInput_def Let_def globalIndexLoop_eq localIndexLoop_eq)

lemma makeCreateTableInput_ProvisionedThroughput:
  "ProvisionedThroughput (makeCreateTableInput tn opts) =
     makeProvisionedThroughput (makeTableOptions opts)"
  by (simp add: makeCreateTableInput_def Let_def globalIndexLoop_eq localIndexLoop_eq)

lemma makeCreateTableInput_KeySchema:
  "KeySchema (makeCreateTableInput tn opts) = makeKeySchemaElements (makeTableOptions opts)"
  by (simp add: makeCreateTableInput_def Let_def globalIndexLoop_eq localIndexLoop_eq)

lemma makeCreateTableInput_TableName:
  "TableName (makeCreateTableInput tn opts) = tn"
  by (simp add: makeCreateTableInput_def Let_def globalIndexLoop_eq localIndexLoop_eq)

lemma makeCreateTableInput_GlobalSecondaryIndexes:
  "GlobalSecondaryIndexes (makeCreateTableInput tn opts) =
     map (\<lambda>decl. fst (globalIndexFn decl (billingMode (makeTableOptions opts))))
         (List.map_filter globalIndexOf opts)"
  by (simp add: makeCreateTableInput_def Let_def globalIndexLoop_eq localIndexLoop_eq
                globalIndexes_makeTableOptions comp_def)

lemma makeCreateTableInput_LocalSecondaryIndexes:
  "LocalSecondaryIndexes (makeCreateTableInput tn opts) =
     map (\<lambda>decl. fst (localIndexFn decl (billingMode (makeTableOptions opts))))
         (List.map_filter localIndexOf opts)"
  by (simp add: makeCreateTableInput_def Let_def globalIndexLoop_eq localIndexLoop_eq
                localIndexes_makeTableOptions comp_def)

lemma makeCreateTableInput_AttributeDefinitions:
  "AttributeDefinitions (makeCreateTableInput tn opts) =
     merge (makeAttributeDefinitions (makeTableOptions opts)) (declaredIndexAttributes opts)"
  by (simp add: makeCreateTableInput_def Let_def globalIndexLoop_eq localIndexLoop_eq
                globalIndexes_makeTableOptions localIndexes_makeTableOptions comp_def
                snd_globalIndexFn snd_localIndexFn merge_merge declaredIndexAttributes_def)

section \<open>Evaluation rules and the resolved scalar fields\<close>

lemmas sdk_constants =
  BillingModeProvisioned_def BillingModePayPerRequest_def KeyTypeHash_def KeyTypeRange_def
  ErrCodeResourceInUseException_def ErrCodeResourceNotFoundException_def
  DefaultBillingMode_def DefaultReadCapacity_def DefaultWriteCapacity_def

lemmas render_defs =
  makeCreateTableInput_def makeTableOptions.simps initialOptions_def
  makeAttributeDefinitions_def makeKeySchemaElements_def makeProvisionedThroughput_def
  merge_def

lemma billingMode_makeTableOptions:
  "billingMode (makeTableOptions opts) =
     lastOr DefaultBillingMode (List.map_filter billingModeOf opts)"
  by (simp add: makeTableOptions.simps billingMode_applyOptions initialOptions_def)

lemma readCapacity_makeTableOptions:
  "readCapacityUnits (makeTableOptions opts) =
     lastOr DefaultReadCapacity (List.map_filter readCapacityOf opts)"
  by (simp add: makeTableOptions.simps readCapacity_applyOptions initialOptions_def)

lemma writeCapacity_makeTableOptions:
  "writeCapacityUnits (makeTableOptions opts) =
     lastOr DefaultWriteCapacity (List.map_filter writeCapacityOf opts)"
  by (simp add: makeTableOptions.simps writeCapacity_applyOptions initialOptions_def)

lemma streamViewType_makeTableOptions:
  "streamViewType (makeTableOptions opts) =
     lastOr [] (List.map_filter streamViewTypeOf opts)"
  by (simp add: makeTableOptions.simps streamViewType_applyOptions initialOptions_def)

lemma hashKey_makeTableOptions:
  "hashKey (keys (makeTableOptions opts)) =
     lastOr None (map Some (List.map_filter hashKeyOf opts))"
  by (simp add: makeTableOptions.simps hashKey_applyOptions initialOptions_def)

lemma rangeKey_makeTableOptions:
  "rangeKey (keys (makeTableOptions opts)) =
     lastOr None (map Some (List.map_filter rangeKeyOf opts))"
  by (simp add: makeTableOptions.simps rangeKey_applyOptions initialOptions_def)

section \<open>The rendered index entries\<close>

lemma makeAttributeNames_eq: "makeAttributeNames attrs = map Name attrs"
  by (induction attrs) simp_all

lemma makeKeySchemaElements_billingMode:
  "makeKeySchemaElements (options\<lparr>billingMode := bm\<rparr>) = makeKeySchemaElements options"
  by (simp add: makeKeySchemaElements_def)

lemma fst_globalIndexFn: "fst (globalIndexFn decl bm) = renderGlobalIndex bm decl"
  by (cases decl)
     (simp add: globalIndexFn_def renderGlobalIndex_def Let_def makeAttributeNames_eq
                makeKeySchemaElements_billingMode attributes_makeTableOptions
                makeProvisionedThroughput_def readCapacity_makeTableOptions
                writeCapacity_makeTableOptions)

lemma fst_localIndexFn: "fst (localIndexFn decl bm) = renderLocalIndex decl"
  by (cases decl)
     (simp add: localIndexFn_def renderLocalIndex_def Let_def makeAttributeNames_eq
                makeKeySchemaElements_billingMode attributes_makeTableOptions)

lemma rendered_GlobalSecondaryIndexes:
  "GlobalSecondaryIndexes (makeCreateTableInput tn opts) =
     map (renderGlobalIndex (lastOr DefaultBillingMode (List.map_filter billingModeOf opts)))
         (List.map_filter globalIndexOf opts)"
  by (simp add: makeCreateTableInput_GlobalSecondaryIndexes fst_globalIndexFn
                billingMode_makeTableOptions)

lemma rendered_LocalSecondaryIndexes:
  "LocalSecondaryIndexes (makeCreateTableInput tn opts) =
     map renderLocalIndex (List.map_filter localIndexOf opts)"
  by (simp add: makeCreateTableInput_LocalSecondaryIndexes fst_localIndexFn)

lemma renderGlobalIndex_throughput:
  "(gsiProvisionedThroughput (renderGlobalIndex bm decl) \<noteq> None) =
     (bm \<noteq> BillingModePayPerRequest)"
  by (cases decl) (simp add: renderGlobalIndex_def)

section \<open>The merged attribute definitions\<close>

lemma names_dedupByName: "AttributeName ` set (dedupByName ds) = AttributeName ` set ds"
proof (induction ds rule: dedupByName.induct)
  case 1
  show ?case by simp
next
  case (2 d ds)
  have "AttributeName ` set (filter (\<lambda>e. AttributeName e \<noteq> AttributeName d) ds) \<union> {AttributeName d}
        = AttributeName ` set ds \<union> {AttributeName d}"
    by auto
  with "2.IH" show ?case by auto
qed

lemma rendered_AttributeDefinitions_distinct_keys:
  assumes "distinct (map AttributeName (makeAttributeDefinitions (makeTableOptions opts)))"
  shows "AttributeDefinitions (makeCreateTableInput tn opts) =
           dedupByName (declaredDefinitions opts)"
proof -
  let ?keys = "makeAttributeDefinitions (makeTableOptions opts)"
  have "dedupByName ?keys = ?keys"
    using assms by (rule dedupByName_id)
  then show ?thesis
    by (simp add: makeCreateTableInput_AttributeDefinitions merge_eq declaredDefinitions_def
                  dedupByName_append)
qed

section \<open>The hash key at the head of the rendered lists\<close>

lemma take1_append: "xs \<noteq> [] \<Longrightarrow> take 1 (xs @ ys) = take 1 xs"
  by (cases xs) simp_all

lemma makeAttributeDefinitions_hashKey:
  "hashKey (keys options) = Some k \<Longrightarrow>
   take 1 (makeAttributeDefinitions options) =
     [\<lparr>AttributeName = attributeName k, AttributeType = attributeType k\<rparr>]"
  by (simp add: makeAttributeDefinitions_def Let_def split: option.splits)

lemma makeKeySchemaElements_hashKey:
  "hashKey (keys options) = Some k \<Longrightarrow>
   take 1 (makeKeySchemaElements options) =
     [\<lparr>kseAttributeName = attributeName k, KeyType = KeyTypeHash\<rparr>]"
  by (simp add: makeKeySchemaElements_def Let_def split: option.splits)

section \<open>Properties of the rendered request\<close>

text \<open>
  Claim C7. Rendering with hash key ("id", string type "S"), range key ("range", number
  type "N") and no other option gives, for any table name, attribute definitions
  [{id,S},{range,N}] in that order, key schema [{id,HASH},{range,RANGE}] in that order,
  billing mode "PROVISIONED" and a provisioned throughput of 3 read and 3 write capacity
  units; no index and no stream specification.
\<close>

theorem minimal_request:
  "makeCreateTableInput tn [WithHashKey ''id'' ''S'', WithRangeKey ''range'' ''N''] =
     \<lparr>AttributeDefinitions =
        [\<lparr>AttributeName = ''id'', AttributeType = ''S''\<rparr>,
         \<lparr>AttributeName = ''range'', AttributeType = ''N''\<rparr>],
      BillingMode = ''PROVISIONED'',
      GlobalSecondaryIndexes = [],
      KeySchema =
        [\<lparr>kseAttributeName = ''id'', KeyType = ''HASH''\<rparr>,
         \<lparr>kseAttributeName = ''range'', KeyType = ''RANGE''\<rparr>],
      LocalSecondaryIndexes = [],
      ProvisionedThroughput = Some \<lparr>ReadCapacityUnits = 3, WriteCapacityUnits = 3\<rparr>,
      StreamSpecification = None,
      TableName = tn\<rparr>"
  by (simp add: render_defs sdk_constants)

text \<open>
  Claim C1. For every sequence of table options, the table-level provisioned throughput
  of the rendered request is present if and only if the resolved billing mode (the last
  \<open>WithBillingMode\<close> of the sequence, or the default) is not pay-per-request; when
  present, it carries the configured read and write capacity units (the last capacity
  option of each kind, or the default).
\<close>

theorem throughput_iff_not_pay_per_request:
  "(ProvisionedThroughput (makeCreateTableInput tn opts) \<noteq> None) =
     (BillingMode (makeCreateTableInput tn opts) \<noteq> BillingModePayPerRequest)
   \<and> BillingMode (makeCreateTableInput tn opts) =
       lastOr DefaultBillingMode (List.map_filter billingModeOf opts)
   \<and> (BillingMode (makeCreateTableInput tn opts) \<noteq> BillingModePayPerRequest \<longrightarrow>
        ProvisionedThroughput (makeCreateTableInput tn opts) =
          Some \<lparr>ReadCapacityUnits =
                  lastOr DefaultReadCapacity (List.map_filter readCapacityOf opts),
                WriteCapacityUnits =
                  lastOr DefaultWriteCapacity (List.map_filter writeCapacityOf opts)\<rparr>)"
  by (simp add: makeCreateTableInput_BillingMode makeCreateTableInput_ProvisionedThroughput
                makeProvisionedThroughput_def billingMode_makeTableOptions
                readCapacity_makeTableOptions writeCapacity_makeTableOptions)

theorem throughput_iff_not_pay_per_request_witness:
  "BillingMode (makeCreateTableInput ''blah'' [WithReadCapacity 4, WithWriteCapacity 5])
     \<noteq> BillingModePayPerRequest
   \<and> ProvisionedThroughput (makeCreateTableInput ''blah'' [WithReadCapacity 4, WithWriteCapacity 5])
       = Some \<lparr>ReadCapacityUnits = 4, WriteCapacityUnits = 5\<rparr>
   \<and> BillingMode (makeCreateTableInput ''blah'' [WithBillingMode BillingModePayPerRequest])
       = BillingModePayPerRequest
   \<and> ProvisionedThroughput (makeCreateTableInput ''blah'' [WithBillingMode BillingModePayPerRequest])
       = None"
  using throughput_iff_not_pay_per_request [of "''blah''" "[WithReadCapacity 4, WithWriteCapacity 5]"]
        throughput_iff_not_pay_per_request [of "''blah''" "[WithBillingMode BillingModePayPerRequest]"]
  by (auto simp: lastOr_def sdk_constants)

text \<open>
  Claim C6. In every rendered request a local secondary index entry consists of its index
  name, key schema and projection only (the entry has no throughput field, whatever
  capacity options its declaration holds), and every global secondary index entry carries
  a provisioned throughput exactly when the table's resolved billing mode is not
  pay-per-request, in particular whenever it is provisioned.
\<close>

theorem index_throughput_presence:
  "(\<forall>g \<in> set (GlobalSecondaryIndexes (makeCreateTableInput tn opts)).
      (gsiProvisionedThroughput g \<noteq> None) =
        (BillingMode (makeCreateTableInput tn opts) \<noteq> BillingModePayPerRequest))
   \<and> (BillingMode (makeCreateTableInput tn opts) = BillingModeProvisioned \<longrightarrow>
        (\<forall>g \<in> set (GlobalSecondaryIndexes (makeCreateTableInput tn opts)).
           gsiProvisionedThroughput g \<noteq> None))
   \<and> LocalSecondaryIndexes (makeCreateTableInput tn opts) =
       map (\<lambda>(indexName, projType, iopts).
              \<lparr>lsiIndexName = indexName,
               lsiKeySchema = makeKeySchemaElements (makeTableOptions iopts),
               lsiProjection = \<lparr>NonKeyAttributes = map Name (List.map_filter attrOf iopts),
                                ProjectionType = projType\<rparr>\<rparr>)
           (List.map_filter localIndexOf opts)"
proof -
  let ?r = "makeCreateTableInput tn opts"
  have bm: "BillingMode ?r = lastOr DefaultBillingMode (List.map_filter billingModeOf opts)"
    by (simp add: makeCreateTableInput_BillingMode billingMode_makeTableOptions)
  have g: "\<forall>g \<in> set (GlobalSecondaryIndexes ?r).
      (gsiProvisionedThroughput g \<noteq> None) = (BillingMode ?r \<noteq> BillingModePayPerRequest)"
    unfolding rendered_GlobalSecondaryIndexes bm
    using renderGlobalIndex_throughput by auto
  have ne: "BillingModeProvisioned \<noteq> BillingModePayPerRequest"
    by (simp add: sdk_constants)
  have l: "LocalSecondaryIndexes ?r =
       map (\<lambda>(indexName, projType, iopts).
              \<lparr>lsiIndexName = indexName,
               lsiKeySchema = makeKeySchemaElements (makeTableOptions iopts),
               lsiProjection = \<lparr>NonKeyAttributes = map Name (List.map_filter attrOf iopts),
                                ProjectionType = projType\<rparr>\<rparr>)
           (List.map_filter localIndexOf opts)"
    unfolding rendered_LocalSecondaryIndexes
    by (rule map_cong) (auto simp: renderLocalIndex_def)
  from g ne l show ?thesis by simp
qed

theorem index_throughput_presence_witness:
  "BillingMode (makeCreateTableInput ''blah''
      [WithGlobalSecondaryIndex ''index'' ''INCLUDE'' [WithAttr ''hello'' ''S''],
       WithLocalSecondaryIndex ''local'' ''INCLUDE'' [WithAttr ''hello'' ''S'', WithReadCapacity 9]])
     = BillingModeProvisioned
   \<and> map gsiProvisionedThroughput (GlobalSecondaryIndexes (makeCreateTableInput ''blah''
      [WithGlobalSecondaryIndex ''index'' ''INCLUDE'' [WithAttr ''hello'' ''S''],
       WithLocalSecondaryIndex ''local'' ''INCLUDE'' [WithAttr ''hello'' ''S'', WithReadCapacity 9]]))
     = [Some \<lparr>ReadCapacityUnits = 3, WriteCapacityUnits = 3\<rparr>]
   \<and> LocalSecondaryIndexes (makeCreateTableInput ''blah''
      [WithGlobalSecondaryIndex ''index'' ''INCLUDE'' [WithAttr ''hello'' ''S''],
       WithLocalSecondaryIndex ''local'' ''INCLUDE'' [WithAttr ''hello'' ''S'', WithReadCapacity 9]])
     = [\<lparr>lsiIndexName = ''local'', lsiKeySchema = [],
         lsiProjection = \<lparr>NonKeyAttributes = [''hello''], ProjectionType = ''INCLUDE''\<rparr>\<rparr>]"
  using index_throughput_presence [of "''blah''"
      "[WithGlobalSecondaryIndex ''index'' ''INCLUDE'' [WithAttr ''hello'' ''S''],
        WithLocalSecondaryIndex ''local'' ''INCLUDE'' [WithAttr ''hello'' ''S'', WithReadCapacity 9]]"]
  by (simp add: render_defs sdk_constants)

text \<open>
  Claim C9. A table-level capacity option does not reach any global secondary index:
  inserting or removing \<open>WithReadCapacity\<close> or \<open>WithWriteCapacity\<close> anywhere in the table's
  option sequence leaves the rendered index entries unchanged. The capacity units of an
  index entry are the last capacity options of the index's own option list, 3 and 3 when
  it has none; of the table's configuration only the resolved billing mode enters the
  entry, deciding whether the throughput is present.
\<close>

theorem global_index_throughput_own_capacity:
  "GlobalSecondaryIndexes (makeCreateTableInput tn opts) =
     map (\<lambda>(indexName, projType, iopts).
            \<lparr>gsiIndexName = indexName,
             gsiKeySchema = makeKeySchemaElements (makeTableOptions iopts),
             gsiProjection = \<lparr>NonKeyAttributes = map Name (List.map_filter attrOf iopts),
                              ProjectionType = projType\<rparr>,
             gsiProvisionedThroughput =
               (if BillingMode (makeCreateTableInput tn opts) = BillingModePayPerRequest then None
                else Some \<lparr>ReadCapacityUnits =
                             lastOr DefaultReadCapacity (List.map_filter readCapacityOf iopts),
                           WriteCapacityUnits =
                             lastOr DefaultWriteCapacity (List.map_filter writeCapacityOf iopts)\<rparr>)\<rparr>)
         (List.map_filter globalIndexOf opts)
   \<and> GlobalSecondaryIndexes (makeCreateTableInput tn (xs @ WithReadCapacity rcap # ys)) =
       GlobalSecondaryIndexes (makeCreateTableInput tn (xs @ ys))
   \<and> GlobalSecondaryIndexes (makeCreateTableInput tn (xs @ WithWriteCapacity wcap # ys)) =
       GlobalSecondaryIndexes (makeCreateTableInput tn (xs @ ys))
   \<and> (BillingMode (makeCreateTableInput tn (xs @ WithGlobalSecondaryIndex n p iopts # ys))
         \<noteq> BillingModePayPerRequest
       \<and> List.map_filter readCapacityOf iopts = []
       \<and> List.map_filter writeCapacityOf iopts = [] \<longrightarrow>
       gsiProvisionedThroughput
         (GlobalSecondaryIndexes (makeCreateTableInput tn (xs @ WithGlobalSecondaryIndex n p iopts # ys))
            ! length (List.map_filter globalIndexOf xs)) =
         Some \<lparr>ReadCapacityUnits = 3, WriteCapacityUnits = 3\<rparr>)"
proof -
  have a: "GlobalSecondaryIndexes (makeCreateTableInput tn opts) =
     map (\<lambda>(indexName, projType, iopts).
            \<lparr>gsiIndexName = indexName,
             gsiKeySchema = makeKeySchemaElements (makeTableOptions iopts),
             gsiProjection = \<lparr>NonKeyAttributes = map Name (List.map_filter attrOf iopts),
                              ProjectionType = projType\<rparr>,
             gsiProvisionedThroughput =
               (if BillingMode (makeCreateTableInput tn opts) = BillingModePayPerRequest then None
                else Some \<lparr>ReadCapacityUnits =
                             lastOr DefaultReadCapacity (List.map_filter readCapacityOf iopts),
                           WriteCapacityUnits =
                             lastOr DefaultWriteCapacity (List.map_filter writeCapacityOf iopts)\<rparr>)\<rparr>)
         (List.map_filter globalIndexOf opts)"
    unfolding rendered_GlobalSecondaryIndexes makeCreateTableInput_BillingMode
      billingMode_makeTableOptions
    by (rule map_cong) (auto simp: renderGlobalIndex_def)
  have b: "GlobalSecondaryIndexes (makeCreateTableInput tn (xs @ WithReadCapacity rcap # ys)) =
       GlobalSecondaryIndexes (makeCreateTableInput tn (xs @ ys))"
    by (simp add: rendered_GlobalSecondaryIndexes map_filter_append)
  have c: "GlobalSecondaryIndexes (makeCreateTableInput tn (xs @ WithWriteCapacity wcap # ys)) =
       GlobalSecondaryIndexes (makeCreateTableInput tn (xs @ ys))"
    by (simp add: rendered_GlobalSecondaryIndexes map_filter_append)
  have d: "BillingMode (makeCreateTableInput tn (xs @ WithGlobalSecondaryIndex n p iopts # ys))
         \<noteq> BillingModePayPerRequest
       \<and> List.map_filter readCapacityOf iopts = []
       \<and> List.map_filter writeCapacityOf iopts = [] \<longrightarrow>
       gsiProvisionedThroughput
         (GlobalSecondaryIndexes (makeCreateTableInput tn (xs @ WithGlobalSecondaryIndex n p iopts # ys))
            ! length (List.map_filter globalIndexOf xs)) =
         Some \<lparr>ReadCapacityUnits = 3, WriteCapacityUnits = 3\<rparr>"
    by (simp add: rendered_GlobalSecondaryIndexes map_filter_append nth_append
                  makeCreateTableInput_BillingMode billingMode_makeTableOptions
                  renderGlobalIndex_def lastOr_Nil sdk_constants)
  from a b c d show ?thesis by (intro conjI)
qed

theorem global_index_throughput_own_capacity_witness:
  "BillingMode (makeCreateTableInput ''blah''
      ([WithReadCapacity 7, WithWriteCapacity 9] @
        WithGlobalSecondaryIndex ''index'' ''INCLUDE'' [WithAttr ''hello'' ''S''] #
        [WithGlobalSecondaryIndex ''other'' ''ALL'' [WithHashKey ''k'' ''S'', WithReadCapacity 5]]))
     \<noteq> BillingModePayPerRequest
   \<and> List.map_filter readCapacityOf [WithAttr ''hello'' ''S''] = []
   \<and> List.map_filter writeCapacityOf [WithAttr ''hello'' ''S''] = []
   \<and> ProvisionedThroughput (makeCreateTableInput ''blah''
      ([WithReadCapacity 7, WithWriteCapacity 9] @
        WithGlobalSecondaryIndex ''index'' ''INCLUDE'' [WithAttr ''hello'' ''S''] #
        [WithGlobalSecondaryIndex ''other'' ''ALL'' [WithHashKey ''k'' ''S'', WithReadCapacity 5]]))
     = Some \<lparr>ReadCapacityUnits = 7, WriteCapacityUnits = 9\<rparr>
   \<and> map gsiProvisionedThroughput (GlobalSecondaryIndexes (makeCreateTableInput ''blah''
      ([WithReadCapacity 7, WithWriteCapacity 9] @
        WithGlobalSecondaryIndex ''index'' ''INCLUDE'' [WithAttr ''hello'' ''S''] #
        [WithGlobalSecondaryIndex ''other'' ''ALL'' [WithHashKey ''k'' ''S'', WithReadCapacity 5]])))
     = [Some \<lparr>ReadCapacityUnits = 3, WriteCapacityUnits = 3\<rparr>,
        Some \<lparr>ReadCapacityUnits = 5, WriteCapacityUnits = 3\<rparr>]"
  using global_index_throughput_own_capacity [where tn = "''blah''"
      and opts = "[WithReadCapacity 7, WithWriteCapacity 9] @
        WithGlobalSecondaryIndex ''index'' ''INCLUDE'' [WithAttr ''hello'' ''S''] #
        [WithGlobalSecondaryIndex ''other'' ''ALL'' [WithHashKey ''k'' ''S'', WithReadCapacity 5]]"
      and xs = "[WithReadCapacity 7, WithWriteCapacity 9]"
      and n = "''index''" and p = "''INCLUDE''" and iopts = "[WithAttr ''hello'' ''S'']"
      and ys = "[WithGlobalSecondaryIndex ''other'' ''ALL'' [WithHashKey ''k'' ''S'', WithReadCapacity 5]]"
      and rcap = 0 and wcap = 0]
  by (simp add: render_defs sdk_constants)

text \<open>
  Claim C8. Options are folded into the configuration from left to right, starting from
  the defaults. Each scalar field (billing mode, hash key, range key, read capacity,
  write capacity, stream view type) ends as the value of the last option of its kind, or
  its initial value when there is none; each list field (attributes, global indexes,
  local indexes) ends as one element per option of its kind, in the order supplied.
\<close>

theorem options_fold_in_order:
  "makeTableOptions [] = initialOptions
   \<and> makeTableOptions (xs @ [x]) = ApplyTable x (makeTableOptions xs)
   \<and> makeTableOptions (xs @ ys) = applyOptions ys (makeTableOptions xs)
   \<and> billingMode (makeTableOptions opts) =
       lastOr DefaultBillingMode (List.map_filter billingModeOf opts)
   \<and> hashKey (keys (makeTableOptions opts)) =
       lastOr None (map Some (List.map_filter hashKeyOf opts))
   \<and> rangeKey (keys (makeTableOptions opts)) =
       lastOr None (map Some (List.map_filter rangeKeyOf opts))
   \<and> readCapacityUnits (makeTableOptions opts) =
       lastOr DefaultReadCapacity (List.map_filter readCapacityOf opts)
   \<and> writeCapacityUnits (makeTableOptions opts) =
       lastOr DefaultWriteCapacity (List.map_filter writeCapacityOf opts)
   \<and> streamViewType (makeTableOptions opts) =
       lastOr [] (List.map_filter streamViewTypeOf opts)
   \<and> attributes (makeTableOptions opts) = List.map_filter attrOf opts
   \<and> globalIndexes (makeTableOptions opts) =
       map globalIndexFn (List.map_filter globalIndexOf opts)
   \<and> localIndexes (makeTableOptions opts) =
       map localIndexFn (List.map_filter localIndexOf opts)"
  by (simp add: makeTableOptions.simps [of "[]"] makeTableOptions.simps [of "xs @ [x]"]
        makeTableOptions.simps [of "xs @ ys"] makeTableOptions.simps [of xs]
        applyOptions_append
        billingMode_makeTableOptions hashKey_makeTableOptions rangeKey_makeTableOptions
        readCapacity_makeTableOptions writeCapacity_makeTableOptions
        streamViewType_makeTableOptions attributes_makeTableOptions
        globalIndexes_makeTableOptions localIndexes_makeTableOptions)


theorem options_fold_in_order_witness:
  "billingMode (makeTableOptions
      [WithBillingMode ''PAY_PER_REQUEST'', WithAttr ''a'' ''S'', WithReadCapacity 4,
       WithBillingMode ''PROVISIONED'', WithAttr ''b'' ''N'', WithReadCapacity 9,
       WithHashKey ''h1'' ''S'', WithHashKey ''h2'' ''N'']) = ''PROVISIONED''
   \<and> readCapacityUnits (makeTableOptions
      [WithBillingMode ''PAY_PER_REQUEST'', WithAttr ''a'' ''S'', WithReadCapacity 4,
       WithBillingMode ''PROVISIONED'', WithAttr ''b'' ''N'', WithReadCapacity 9,
       WithHashKey ''h1'' ''S'', WithHashKey ''h2'' ''N'']) = 9
   \<and> writeCapacityUnits (makeTableOptions
      [WithBillingMode ''PAY_PER_REQUEST'', WithAttr ''a'' ''S'', WithReadCapacity 4,
       WithBillingMode ''PROVISIONED'', WithAttr ''b'' ''N'', WithReadCapacity 9,
       WithHashKey ''h1'' ''S'', WithHashKey ''h2'' ''N'']) = 3
   \<and> hashKey (keys (makeTableOptions
      [WithBillingMode ''PAY_PER_REQUEST'', WithAttr ''a'' ''S'', WithReadCapacity 4,
       WithBillingMode ''PROVISIONED'', WithAttr ''b'' ''N'', WithReadCapacity 9,
       WithHashKey ''h1'' ''S'', WithHashKey ''h2'' ''N''])) =
       Some \<lparr>attributeName = ''h2'', attributeType = ''N''\<rparr>
   \<and> attributes (makeTableOptions
      [WithBillingMode ''PAY_PER_REQUEST'', WithAttr ''a'' ''S'', WithReadCapacity 4,
       WithBillingMode ''PROVISIONED'', WithAttr ''b'' ''N'', WithReadCapacity 9,
       WithHashKey ''h1'' ''S'', WithHashKey ''h2'' ''N'']) =
       [\<lparr>Name = ''a'', Type = ''S''\<rparr>, \<lparr>Name = ''b'', Type = ''N''\<rparr>]"
  using options_fold_in_order [where opts =
      "[WithBillingMode ''PAY_PER_REQUEST'', WithAttr ''a'' ''S'', WithReadCapacity 4,
        WithBillingMode ''PROVISIONED'', WithAttr ''b'' ''N'', WithReadCapacity 9,
        WithHashKey ''h1'' ''S'', WithHashKey ''h2'' ''N'']"]
  by (simp add: lastOr_def sdk_constants)

text \<open>
  Claim C2, as stated, fails: a table whose hash key and range key carry the same name is
  rendered with two attribute definitions of that name, since \<open>merge\<close> copies the
  definitions it is given and only filters the attributes it adds.
\<close>

theorem duplicate_key_names_counterexample:
  "AttributeDefinitions (makeCreateTableInput ''t'' [WithHashKey ''a'' ''S'', WithRangeKey ''a'' ''N''])
     = [\<lparr>AttributeName = ''a'', AttributeType = ''S''\<rparr>,
        \<lparr>AttributeName = ''a'', AttributeType = ''N''\<rparr>]
   \<and> \<not> distinct (map AttributeName
        (AttributeDefinitions
           (makeCreateTableInput ''t'' [WithHashKey ''a'' ''S'', WithRangeKey ''a'' ''N''])))"
  by (simp add: render_defs sdk_constants)

text \<open>
  Claim C2, amended. Whenever the names of the table's own key attributes are distinct
  (the hash key and the range key differ in name, or one is absent), the attribute
  definitions of the rendered request hold no two entries with the same name, they hold
  every declared name, and each entry is the first declaration of its name in rendering
  order: the table's hash key, its range key, the \<open>WithAttr\<close> attributes of the global
  indexes in the order declared, then those of the local indexes.
\<close>

theorem attribute_names_unique_first_wins:
  assumes "distinct (map AttributeName (makeAttributeDefinitions (makeTableOptions opts)))"
  shows "distinct (map AttributeName (AttributeDefinitions (makeCreateTableInput tn opts)))
    \<and> AttributeName ` set (AttributeDefinitions (makeCreateTableInput tn opts)) =
        AttributeName ` set (declaredDefinitions opts)
    \<and> (\<forall>d \<in> set (AttributeDefinitions (makeCreateTableInput tn opts)).
          find (\<lambda>e. AttributeName e = AttributeName d) (declaredDefinitions opts) = Some d)"
proof -
  have eq: "AttributeDefinitions (makeCreateTableInput tn opts) =
              dedupByName (declaredDefinitions opts)"
    using assms by (rule rendered_AttributeDefinitions_distinct_keys)
  show ?thesis
    unfolding eq
    by (simp add: distinct_dedupByName names_dedupByName dedupByName_first)
qed

theorem attribute_names_unique_first_wins_witness:
  "distinct (map AttributeName (makeAttributeDefinitions (makeTableOptions
      [WithHashKey ''id'' ''S'', WithRangeKey ''ts'' ''N'',
       WithLocalSecondaryIndex ''l'' ''INCLUDE'' [WithAttr ''x'' ''S'', WithAttr ''id'' ''N''],
       WithGlobalSecondaryIndex ''g'' ''INCLUDE'' [WithAttr ''x'' ''N'', WithAttr ''y'' ''B'']])))
   \<and> AttributeDefinitions (makeCreateTableInput ''blah''
      [WithHashKey ''id'' ''S'', WithRangeKey ''ts'' ''N'',
       WithLocalSecondaryIndex ''l'' ''INCLUDE'' [WithAttr ''x'' ''S'', WithAttr ''id'' ''N''],
       WithGlobalSecondaryIndex ''g'' ''INCLUDE'' [WithAttr ''x'' ''N'', WithAttr ''y'' ''B'']])
     = [\<lparr>AttributeName = ''id'', AttributeType = ''S''\<rparr>,
        \<lparr>AttributeName = ''ts'', AttributeType = ''N''\<rparr>,
        \<lparr>AttributeName = ''x'', AttributeType = ''N''\<rparr>,
        \<lparr>AttributeName = ''y'', AttributeType = ''B''\<rparr>]
   \<and> distinct (map AttributeName (AttributeDefinitions (makeCreateTableInput ''blah''
      [WithHashKey ''id'' ''S'', WithRangeKey ''ts'' ''N'',
       WithLocalSecondaryIndex ''l'' ''INCLUDE'' [WithAttr ''x'' ''S'', WithAttr ''id'' ''N''],
       WithGlobalSecondaryIndex ''g'' ''INCLUDE'' [WithAttr ''x'' ''N'', WithAttr ''y'' ''B'']])))
   \<and> declaredDefinitions
      [WithHashKey ''id'' ''S'', WithRangeKey ''ts'' ''N'',
       WithLocalSecondaryIndex ''l'' ''INCLUDE'' [WithAttr ''x'' ''S'', WithAttr ''id'' ''N''],
       WithGlobalSecondaryIndex ''g'' ''INCLUDE'' [WithAttr ''x'' ''N'', WithAttr ''y'' ''B'']]
     = [\<lparr>AttributeName = ''id'', AttributeType = ''S''\<rparr>,
        \<lparr>AttributeName = ''ts'', AttributeType = ''N''\<rparr>,
        \<lparr>AttributeName = ''x'', AttributeType = ''N''\<rparr>,
        \<lparr>AttributeName = ''y'', AttributeType = ''B''\<rparr>,
        \<lparr>AttributeName = ''x'', AttributeType = ''S''\<rparr>,
        \<lparr>AttributeName = ''id'', AttributeType = ''N''\<rparr>]"
proof -
  have h: "distinct (map AttributeName (makeAttributeDefinitions (makeTableOptions
      [WithHashKey ''id'' ''S'', WithRangeKey ''ts'' ''N'',
       WithLocalSecondaryIndex ''l'' ''INCLUDE'' [WithAttr ''x'' ''S'', WithAttr ''id'' ''N''],
       WithGlobalSecondaryIndex ''g'' ''INCLUDE'' [WithAttr ''x'' ''N'', WithAttr ''y'' ''B'']])))"
    by (simp add: render_defs sdk_constants)
  show ?thesis
    using h attribute_names_unique_first_wins [OF h, of "''blah''"]
    by (simp add: render_defs sdk_constants declaredDefinitions_def declaredIndexAttributes_def
                  indexAttributes_def toDefinition_def)
qed


text \<open>
  Claim C3, as stated, fails: the key-schema attributes of an index are not merged into
  the attribute definitions. An index declared with its own hash key "gk" is rendered with
  "gk" in its key schema and without "gk" among the attribute definitions.
\<close>

theorem index_key_not_defined_counterexample:
  "AttributeDefinitions (makeCreateTableInput ''t''
      [WithHashKey ''id'' ''S'', WithGlobalSecondaryIndex ''idx'' ''ALL'' [WithHashKey ''gk'' ''S'']])
     = [\<lparr>AttributeName = ''id'', AttributeType = ''S''\<rparr>]
   \<and> map gsiKeySchema (GlobalSecondaryIndexes (makeCreateTableInput ''t''
      [WithHashKey ''id'' ''S'', WithGlobalSecondaryIndex ''idx'' ''ALL'' [WithHashKey ''gk'' ''S'']]))
     = [[\<lparr>kseAttributeName = ''gk'', KeyType = ''HASH''\<rparr>]]
   \<and> claimedAttributeDefinitions
      [WithHashKey ''id'' ''S'', WithGlobalSecondaryIndex ''idx'' ''ALL'' [WithHashKey ''gk'' ''S'']]
     = [\<lparr>AttributeName = ''id'', AttributeType = ''S''\<rparr>,
        \<lparr>AttributeName = ''gk'', AttributeType = ''S''\<rparr>]
   \<and> AttributeDefinitions (makeCreateTableInput ''t''
      [WithHashKey ''id'' ''S'', WithGlobalSecondaryIndex ''idx'' ''ALL'' [WithHashKey ''gk'' ''S'']])
     \<noteq> claimedAttributeDefinitions
      [WithHashKey ''id'' ''S'', WithGlobalSecondaryIndex ''idx'' ''ALL'' [WithHashKey ''gk'' ''S'']]"
  by (simp add: render_defs sdk_constants claimedAttributeDefinitions_def)

text \<open>
  Claim C3, amended. The attribute definitions of the rendered request are the table's
  own hash and range key attributes, followed by the attributes declared with \<open>WithAttr\<close>
  inside the option lists of the global indexes (in the order declared) and then of the
  local indexes, keeping of each name only the first and none whose name a table key
  already carries; the key-schema attributes of an index are not added. When the table's
  key names are distinct this is the de-duplication by name, first occurrence winning, of
  the whole sequence.
\<close>

theorem attribute_definitions_merged:
  "AttributeDefinitions (makeCreateTableInput tn opts) =
     makeAttributeDefinitions (makeTableOptions opts) @
     dedupByName
       (filter (\<lambda>d. AttributeName d \<notin>
                       AttributeName ` set (makeAttributeDefinitions (makeTableOptions opts)))
          (map toDefinition (declaredIndexAttributes opts)))
   \<and> declaredIndexAttributes opts =
       concat (map (\<lambda>(indexName, projType, iopts). List.map_filter attrOf iopts)
                   (List.map_filter globalIndexOf opts)) @
       concat (map (\<lambda>(indexName, projType, iopts). List.map_filter attrOf iopts)
                   (List.map_filter localIndexOf opts))
   \<and> (distinct (map AttributeName (makeAttributeDefinitions (makeTableOptions opts))) \<longrightarrow>
        AttributeDefinitions (makeCreateTableInput tn opts) =
          dedupByName (makeAttributeDefinitions (makeTableOptions opts) @
                       map toDefinition (declaredIndexAttributes opts)))"
proof -
  have a: "AttributeDefinitions (makeCreateTableInput tn opts) =
     makeAttributeDefinitions (makeTableOptions opts) @
     dedupByName
       (filter (\<lambda>d. AttributeName d \<notin>
                       AttributeName ` set (makeAttributeDefinitions (makeTableOptions opts)))
          (map toDefinition (declaredIndexAttributes opts)))"
    by (simp add: makeCreateTableInput_AttributeDefinitions merge_eq)
  have ia: "indexAttributes = (\<lambda>(indexName, projType, iopts). List.map_filter attrOf iopts)"
    by (auto simp: indexAttributes_def fun_eq_iff)
  have b: "declaredIndexAttributes opts =
       concat (map (\<lambda>(indexName, projType, iopts). List.map_filter attrOf iopts)
                   (List.map_filter globalIndexOf opts)) @
       concat (map (\<lambda>(indexName, projType, iopts). List.map_filter attrOf iopts)
                   (List.map_filter localIndexOf opts))"
    by (simp add: declaredIndexAttributes_def ia)
  have c: "distinct (map AttributeName (makeAttributeDefinitions (makeTableOptions opts))) \<longrightarrow>
        AttributeDefinitions (makeCreateTableInput tn opts) =
          dedupByName (makeAttributeDefinitions (makeTableOptions opts) @
                       map toDefinition (declaredIndexAttributes opts))"
    using rendered_AttributeDefinitions_distinct_keys [of opts tn]
    by (simp add: declaredDefinitions_def)
  from a b c show ?thesis by (intro conjI)
qed

theorem attribute_definitions_merged_witness:
  "distinct (map AttributeName (makeAttributeDefinitions (makeTableOptions
      [WithHashKey ''hash'' ''S'',
       WithGlobalSecondaryIndex ''index'' ''INCLUDE'' [WithHashKey ''gk'' ''S'', WithAttr ''hello'' ''S''],
       WithLocalSecondaryIndex ''local'' ''INCLUDE'' [WithAttr ''hello'' ''N'', WithAttr ''hash'' ''N'']])))
   \<and> AttributeDefinitions (makeCreateTableInput ''blah''
      [WithHashKey ''hash'' ''S'',
       WithGlobalSecondaryIndex ''index'' ''INCLUDE'' [WithHashKey ''gk'' ''S'', WithAttr ''hello'' ''S''],
       WithLocalSecondaryIndex ''local'' ''INCLUDE'' [WithAttr ''hello'' ''N'', WithAttr ''hash'' ''N'']])
     = dedupByName (makeAttributeDefinitions (makeTableOptions
      [WithHashKey ''hash'' ''S'',
       WithGlobalSecondaryIndex ''index'' ''INCLUDE'' [WithHashKey ''gk'' ''S'', WithAttr ''hello'' ''S''],
       WithLocalSecondaryIndex ''local'' ''INCLUDE'' [WithAttr ''hello'' ''N'', WithAttr ''hash'' ''N'']]) @ map toDefinition (declaredIndexAttributes
      [WithHashKey ''hash'' ''S'',
       WithGlobalSecondaryIndex ''index'' ''INCLUDE'' [WithHashKey ''gk'' ''S'', WithAttr ''hello'' ''S''],
       WithLocalSecondaryIndex ''local'' ''INCLUDE'' [WithAttr ''hello'' ''N'', WithAttr ''hash'' ''N'']]))
   \<and> declaredIndexAttributes
      [WithHashKey ''hash'' ''S'',
       WithGlobalSecondaryIndex ''index'' ''INCLUDE'' [WithHashKey ''gk'' ''S'', WithAttr ''hello'' ''S''],
       WithLocalSecondaryIndex ''local'' ''INCLUDE'' [WithAttr ''hello'' ''N'', WithAttr ''hash'' ''N'']]
     = [\<lparr>Name = ''hello'', Type = ''S''\<rparr>, \<lparr>Name = ''hello'', Type = ''N''\<rparr>,
        \<lparr>Name = ''hash'', Type = ''N''\<rparr>]
   \<and> AttributeDefinitions (makeCreateTableInput ''blah''
      [WithHashKey ''hash'' ''S'',
       WithGlobalSecondaryIndex ''index'' ''INCLUDE'' [WithHashKey ''gk'' ''S'', WithAttr ''hello'' ''S''],
       WithLocalSecondaryIndex ''local'' ''INCLUDE'' [WithAttr ''hello'' ''N'', WithAttr ''hash'' ''N'']])
     = [\<lparr>AttributeName = ''hash'', AttributeType = ''S''\<rparr>,
        \<lparr>AttributeName = ''hello'', AttributeType = ''S''\<rparr>]"
proof -
  have h: "distinct (map AttributeName (makeAttributeDefinitions (makeTableOptions
      [WithHashKey ''hash'' ''S'',
       WithGlobalSecondaryIndex ''index'' ''INCLUDE'' [WithHashKey ''gk'' ''S'', WithAttr ''hello'' ''S''],
       WithLocalSecondaryIndex ''local'' ''INCLUDE'' [WithAttr ''hello'' ''N'', WithAttr ''hash'' ''N'']])))"
    by (simp add: render_defs)
  have d: "declaredIndexAttributes
      [WithHashKey ''hash'' ''S'',
       WithGlobalSecondaryIndex ''index'' ''INCLUDE'' [WithHashKey ''gk'' ''S'', WithAttr ''hello'' ''S''],
       WithLocalSecondaryIndex ''local'' ''INCLUDE'' [WithAttr ''hello'' ''N'', WithAttr ''hash'' ''N'']]
     = [\<lparr>Name = ''hello'', Type = ''S''\<rparr>, \<lparr>Name = ''hello'', Type = ''N''\<rparr>,
        \<lparr>Name = ''hash'', Type = ''N''\<rparr>]"
    by (simp add: declaredIndexAttributes_def indexAttributes_def)
  have v: "AttributeDefinitions (makeCreateTableInput ''blah''
      [WithHashKey ''hash'' ''S'',
       WithGlobalSecondaryIndex ''index'' ''INCLUDE'' [WithHashKey ''gk'' ''S'', WithAttr ''hello'' ''S''],
       WithLocalSecondaryIndex ''local'' ''INCLUDE'' [WithAttr ''hello'' ''N'', WithAttr ''hash'' ''N'']])
     = [\<lparr>AttributeName = ''hash'', AttributeType = ''S''\<rparr>,
        \<lparr>AttributeName = ''hello'', AttributeType = ''S''\<rparr>]"
    by (simp add: render_defs sdk_constants)
  from h attribute_definitions_merged [of "''blah''"
      "[WithHashKey ''hash'' ''S'',
       WithGlobalSecondaryIndex ''index'' ''INCLUDE'' [WithHashKey ''gk'' ''S'', WithAttr ''hello'' ''S''],
       WithLocalSecondaryIndex ''local'' ''INCLUDE'' [WithAttr ''hello'' ''N'', WithAttr ''hash'' ''N'']]"]
  have e: "AttributeDefinitions (makeCreateTableInput ''blah''
      [WithHashKey ''hash'' ''S'',
       WithGlobalSecondaryIndex ''index'' ''INCLUDE'' [WithHashKey ''gk'' ''S'', WithAttr ''hello'' ''S''],
       WithLocalSecondaryIndex ''local'' ''INCLUDE'' [WithAttr ''hello'' ''N'', WithAttr ''hash'' ''N'']])
     = dedupByName (makeAttributeDefinitions (makeTableOptions
      [WithHashKey ''hash'' ''S'',
       WithGlobalSecondaryIndex ''index'' ''INCLUDE'' [WithHashKey ''gk'' ''S'', WithAttr ''hello'' ''S''],
       WithLocalSecondaryIndex ''local'' ''INCLUDE'' [WithAttr ''hello'' ''N'', WithAttr ''hash'' ''N'']]) @ map toDefinition (declaredIndexAttributes
      [WithHashKey ''hash'' ''S'',
       WithGlobalSecondaryIndex ''index'' ''INCLUDE'' [WithHashKey ''gk'' ''S'', WithAttr ''hello'' ''S''],
       WithLocalSecondaryIndex ''local'' ''INCLUDE'' [WithAttr ''hello'' ''N'', WithAttr ''hash'' ''N'']]))"
    by blast
  from h e d v show ?thesis by (intro conjI)
qed

section \<open>Properties of the table handle\<close>

text \<open>
  Claim C4. \<open>CreateTableIfNotExists\<close> calls the client once, with the request rendered from
  the hash key arguments put in front of the supplied options. It returns nil when the
  client succeeds and when the client fails with an \<open>awserr.Error\<close> whose code is
  "resource in use"; every other error value is returned as the client gave it. The
  service state after the call is the state the single client call left. Hence two
  consecutive identical calls both return nil when the client succeeds on the first and
  reports "resource in use" on the second.
\<close>

theorem create_swallows_resource_in_use:
  "(CreateTableWithContext (api t) ctx
        (makeCreateTableInput (tableName t) (WithHashKey hk ht # opts)) s = (None, s') \<longrightarrow>
      CreateTableIfNotExists t ctx hk ht opts s = (None, s'))
   \<and> (CreateTableWithContext (api t) ctx
        (makeCreateTableInput (tableName t) (WithHashKey hk ht # opts)) s =
          (Some (AwsError ErrCodeResourceInUseException msg), s') \<longrightarrow>
      CreateTableIfNotExists t ctx hk ht opts s = (None, s'))
   \<and> (CreateTableWithContext (api t) ctx
        (makeCreateTableInput (tableName t) (WithHashKey hk ht # opts)) s = (Some err, s')
       \<and> (\<forall>m. err \<noteq> AwsError ErrCodeResourceInUseException m) \<longrightarrow>
      CreateTableIfNotExists t ctx hk ht opts s = (Some err, s'))
   \<and> (CreateTableWithContext (api t) ctx
        (makeCreateTableInput (tableName t) (WithHashKey hk ht # opts)) s = (None, s1)
       \<and> CreateTableWithContext (api t) ctx
        (makeCreateTableInput (tableName t) (WithHashKey hk ht # opts)) s1 =
          (Some (AwsError ErrCodeResourceInUseException msg), s2) \<longrightarrow>
      CreateTableIfNotExists t ctx hk ht opts s = (None, s1)
      \<and> CreateTableIfNotExists t ctx hk ht opts s1 = (None, s2))"
proof -
  have other: "(\<forall>m. err \<noteq> AwsError ErrCodeResourceInUseException m) \<Longrightarrow>
      (case asAwsError err of
         Some (code, m) \<Rightarrow> if code = ErrCodeResourceInUseException then (None, s') else (Some err, s')
       | None \<Rightarrow> (Some err, s')) = (Some err, s')"
    by (cases err) auto
  show ?thesis
    by (auto simp: CreateTableIfNotExists_def Let_def other)
qed

theorem create_swallows_resource_in_use_witness:
  "CreateTableWithContext (api (New serviceAPI ''blah'')) ()
       (makeCreateTableInput (tableName (New serviceAPI ''blah'')) (WithHashKey ''id'' ''S'' # []))
       emptyService =
     (None, \<lparr>tables = [''blah''],
             createCalls = [makeCreateTableInput ''blah'' [WithHashKey ''id'' ''S'']],
             deleteCalls = []\<rparr>)
   \<and> CreateTableWithContext (api (New serviceAPI ''blah'')) ()
       (makeCreateTableInput (tableName (New serviceAPI ''blah'')) (WithHashKey ''id'' ''S'' # []))
       \<lparr>tables = [''blah''],
        createCalls = [makeCreateTableInput ''blah'' [WithHashKey ''id'' ''S'']],
        deleteCalls = []\<rparr> =
     (Some (AwsError ErrCodeResourceInUseException ''table exists''),
      \<lparr>tables = [''blah''],
       createCalls = [makeCreateTableInput ''blah'' [WithHashKey ''id'' ''S''],
                      makeCreateTableInput ''blah'' [WithHashKey ''id'' ''S'']],
       deleteCalls = []\<rparr>)
   \<and> CreateTableIfNotExists (New serviceAPI ''blah'') () ''id'' ''S'' [] emptyService =
     (None, \<lparr>tables = [''blah''],
             createCalls = [makeCreateTableInput ''blah'' [WithHashKey ''id'' ''S'']],
             deleteCalls = []\<rparr>)
   \<and> CreateTableIfNotExists (New serviceAPI ''blah'') () ''id'' ''S'' []
       \<lparr>tables = [''blah''],
        createCalls = [makeCreateTableInput ''blah'' [WithHashKey ''id'' ''S'']],
        deleteCalls = []\<rparr> =
     (None, \<lparr>tables = [''blah''],
             createCalls = [makeCreateTableInput ''blah'' [WithHashKey ''id'' ''S''],
                            makeCreateTableInput ''blah'' [WithHashKey ''id'' ''S'']],
             deleteCalls = []\<rparr>)
   \<and> CreateTableIfNotExists
       (New (Mock (Some (AwsError ErrCodeResourceInUseException ''boom''))) ''blah'')
       () ''id'' ''S'' [] () = (None, ())
   \<and> (\<forall>m. PlainError ''boom'' \<noteq> AwsError ErrCodeResourceInUseException m)
   \<and> CreateTableIfNotExists (New (Mock (Some (PlainError ''boom''))) ''blah'')
       () ''id'' ''S'' [] () = (Some (PlainError ''boom''), ())
   \<and> (\<forall>m. AwsError ErrCodeResourceNotFoundException ''boom''
          \<noteq> AwsError ErrCodeResourceInUseException m)
   \<and> CreateTableIfNotExists
       (New (Mock (Some (AwsError ErrCodeResourceNotFoundException ''boom''))) ''blah'')
       () ''id'' ''S'' [] () = (Some (AwsError ErrCodeResourceNotFoundException ''boom''), ())"
proof -
  let ?req = "makeCreateTableInput ''blah'' [WithHashKey ''id'' ''S'']"
  let ?s1 = "\<lparr>tables = [''blah''], createCalls = [?req], deleteCalls = []\<rparr>"
  let ?s2 = "\<lparr>tables = [''blah''], createCalls = [?req, ?req], deleteCalls = []\<rparr>"
  let ?t = "New serviceAPI ''blah''"
  have call1: "CreateTableWithContext (api ?t) ()
       (makeCreateTableInput (tableName ?t) (WithHashKey ''id'' ''S'' # [])) emptyService =
       (None, ?s1)"
    by (simp add: New_def serviceAPI_def emptyService_def makeCreateTableInput_TableName)
  have call2: "CreateTableWithContext (api ?t) ()
       (makeCreateTableInput (tableName ?t) (WithHashKey ''id'' ''S'' # [])) ?s1 =
       (Some (AwsError ErrCodeResourceInUseException ''table exists''), ?s2)"
    by (simp add: New_def serviceAPI_def makeCreateTableInput_TableName)
  note twice = create_swallows_resource_in_use [where t = ?t and ctx = "()" and hk = "''id''"
      and ht = "''S''" and opts = "[]" and s = emptyService and ?s1.0 = ?s1 and ?s2.0 = ?s2
      and msg = "''table exists''"]
  from twice call1 call2
  have run1: "CreateTableIfNotExists ?t () ''id'' ''S'' [] emptyService = (None, ?s1)"
    and run2: "CreateTableIfNotExists ?t () ''id'' ''S'' [] ?s1 = (None, ?s2)"
    by blast+
  let ?m1 = "New (Mock (Some (AwsError ErrCodeResourceInUseException ''boom''))) ''blah''"
  have "CreateTableWithContext (api ?m1) ()
       (makeCreateTableInput (tableName ?m1) (WithHashKey ''id'' ''S'' # [])) () =
       (Some (AwsError ErrCodeResourceInUseException ''boom''), ())"
    by (simp add: New_def Mock_def)
  with create_swallows_resource_in_use [where t = ?m1 and ctx = "()" and hk = "''id''"
      and ht = "''S''" and opts = "[]" and s = "()" and s' = "()" and msg = "''boom''"]
  have run3: "CreateTableIfNotExists ?m1 () ''id'' ''S'' [] () = (None, ())"
    by blast
  let ?m2 = "New (Mock (Some (PlainError ''boom''))) ''blah''"
  have ne2: "\<forall>m. PlainError ''boom'' \<noteq> AwsError ErrCodeResourceInUseException m"
    by simp
  have "CreateTableWithContext (api ?m2) ()
       (makeCreateTableInput (tableName ?m2) (WithHashKey ''id'' ''S'' # [])) () =
       (Some (PlainError ''boom''), ())"
    by (simp add: New_def Mock_def)
  with ne2 create_swallows_resource_in_use [where t = ?m2 and ctx = "()" and hk = "''id''"
      and ht = "''S''" and opts = "[]" and s = "()" and s' = "()" and err = "PlainError ''boom''"]
  have run4: "CreateTableIfNotExists ?m2 () ''id'' ''S'' [] () = (Some (PlainError ''boom''), ())"
    by blast
  let ?e3 = "AwsError ErrCodeResourceNotFoundException ''boom''"
  let ?m3 = "New (Mock (Some ?e3)) ''blah''"
  have ne3: "\<forall>m. ?e3 \<noteq> AwsError ErrCodeResourceInUseException m"
    by (simp add: sdk_constants)
  have "CreateTableWithContext (api ?m3) ()
       (makeCreateTableInput (tableName ?m3) (WithHashKey ''id'' ''S'' # [])) () =
       (Some ?e3, ())"
    by (simp add: New_def Mock_def)
  with ne3 create_swallows_resource_in_use [where t = ?m3 and ctx = "()" and hk = "''id''"
      and ht = "''S''" and opts = "[]" and s = "()" and s' = "()" and err = ?e3]
  have run5: "CreateTableIfNotExists ?m3 () ''id'' ''S'' [] () = (Some ?e3, ())"
    by blast
  from call1 call2 run1 run2 run3 ne2 run4 ne3 run5 show ?thesis
    by (intro conjI)
qed


text \<open>
  Claim C5. \<open>DeleteTableIfExists\<close> calls the client once, with a delete request that
  carries exactly the bound table name. It returns nil when the client succeeds and when
  the client fails with an \<open>awserr.Error\<close> whose code is "resource not found"; every other
  error value is returned as the client gave it.
\<close>

theorem delete_swallows_resource_not_found:
  "(DeleteTableWithContext (api t) ctx \<lparr>dtiTableName = tableName t\<rparr> s = (None, s') \<longrightarrow>
      DeleteTableIfExists t ctx s = (None, s'))
   \<and> (DeleteTableWithContext (api t) ctx \<lparr>dtiTableName = tableName t\<rparr> s =
          (Some (AwsError ErrCodeResourceNotFoundException msg), s') \<longrightarrow>
      DeleteTableIfExists t ctx s = (None, s'))
   \<and> (DeleteTableWithContext (api t) ctx \<lparr>dtiTableName = tableName t\<rparr> s = (Some err, s')
       \<and> (\<forall>m. err \<noteq> AwsError ErrCodeResourceNotFoundException m) \<longrightarrow>
      DeleteTableIfExists t ctx s = (Some err, s'))"
proof -
  have other: "(\<forall>m. err \<noteq> AwsError ErrCodeResourceNotFoundException m) \<Longrightarrow>
      (case asAwsError err of
         Some (code, m) \<Rightarrow> if code = ErrCodeResourceNotFoundException then (None, s') else (Some err, s')
       | None \<Rightarrow> (Some err, s')) = (Some err, s')"
    by (cases err) auto
  show ?thesis
    by (auto simp: DeleteTableIfExists_def Let_def other)
qed


theorem delete_swallows_resource_not_found_witness:
  "DeleteTableWithContext (api (New serviceAPI ''blah'')) ()
       \<lparr>dtiTableName = tableName (New serviceAPI ''blah'')\<rparr>
       \<lparr>tables = [''blah''], createCalls = [], deleteCalls = []\<rparr> =
     (None, \<lparr>tables = [], createCalls = [],
             deleteCalls = [\<lparr>dtiTableName = ''blah''\<rparr>]\<rparr>)
   \<and> DeleteTableIfExists (New serviceAPI ''blah'') ()
       \<lparr>tables = [''blah''], createCalls = [], deleteCalls = []\<rparr> =
     (None, \<lparr>tables = [], createCalls = [],
             deleteCalls = [\<lparr>dtiTableName = ''blah''\<rparr>]\<rparr>)
   \<and> DeleteTableWithContext (api (New serviceAPI ''blah'')) ()
       \<lparr>dtiTableName = tableName (New serviceAPI ''blah'')\<rparr> emptyService =
     (Some (AwsError ErrCodeResourceNotFoundException ''no such table''),
      \<lparr>tables = [], createCalls = [], deleteCalls = [\<lparr>dtiTableName = ''blah''\<rparr>]\<rparr>)
   \<and> DeleteTableIfExists (New serviceAPI ''blah'') () emptyService =
     (None, \<lparr>tables = [], createCalls = [],
             deleteCalls = [\<lparr>dtiTableName = ''blah''\<rparr>]\<rparr>)
   \<and> (\<forall>m. PlainError ''boom'' \<noteq> AwsError ErrCodeResourceNotFoundException m)
   \<and> DeleteTableIfExists (New (Mock (Some (PlainError ''boom''))) ''blah'') () () =
     (Some (PlainError ''boom''), ())
   \<and> (\<forall>m. AwsError ErrCodeResourceInUseException ''boom''
          \<noteq> AwsError ErrCodeResourceNotFoundException m)
   \<and> DeleteTableIfExists
       (New (Mock (Some (AwsError ErrCodeResourceInUseException ''boom''))) ''blah'') () () =
     (Some (AwsError ErrCodeResourceInUseException ''boom''), ())"
proof -
  let ?t = "New serviceAPI ''blah''"
  let ?s0 = "\<lparr>tables = [''blah''], createCalls = [], deleteCalls = []\<rparr>"
  let ?s1 = "\<lparr>tables = [], createCalls = [], deleteCalls = [\<lparr>dtiTableName = ''blah''\<rparr>]\<rparr>"
  have call1: "DeleteTableWithContext (api ?t) () \<lparr>dtiTableName = tableName ?t\<rparr> ?s0 =
      (None, ?s1)"
    by (simp add: New_def serviceAPI_def)
  with delete_swallows_resource_not_found [where t = ?t and ctx = "()" and s = ?s0
      and s' = ?s1]
  have run1: "DeleteTableIfExists ?t () ?s0 = (None, ?s1)"
    by blast
  have call2: "DeleteTableWithContext (api ?t) () \<lparr>dtiTableName = tableName ?t\<rparr> emptyService =
      (Some (AwsError ErrCodeResourceNotFoundException ''no such table''), ?s1)"
    by (simp add: New_def serviceAPI_def emptyService_def)
  with delete_swallows_resource_not_found [where t = ?t and ctx = "()" and s = emptyService
      and s' = ?s1 and msg = "''no such table''"]
  have run2: "DeleteTableIfExists ?t () emptyService = (None, ?s1)"
    by blast
  let ?m2 = "New (Mock (Some (PlainError ''boom''))) ''blah''"
  have ne2: "\<forall>m. PlainError ''boom'' \<noteq> AwsError ErrCodeResourceNotFoundException m"
    by simp
  have "DeleteTableWithContext (api ?m2) () \<lparr>dtiTableName = tableName ?m2\<rparr> () =
      (Some (PlainError ''boom''), ())"
    by (simp add: New_def Mock_def)
  with ne2 delete_swallows_resource_not_found [where t = ?m2 and ctx = "()" and s = "()"
      and s' = "()" and err = "PlainError ''boom''"]
  have run3: "DeleteTableIfExists ?m2 () () = (Some (PlainError ''boom''), ())"
    by blast
  let ?e3 = "AwsError ErrCodeResourceInUseException ''boom''"
  let ?m3 = "New (Mock (Some ?e3)) ''blah''"
  have ne3: "\<forall>m. ?e3 \<noteq> AwsError ErrCodeResourceNotFoundException m"
    by (simp add: sdk_constants)
  have "DeleteTableWithContext (api ?m3) () \<lparr>dtiTableName = tableName ?m3\<rparr> () =
      (Some ?e3, ())"
    by (simp add: New_def Mock_def)
  with ne3 delete_swallows_resource_not_found [where t = ?m3 and ctx = "()" and s = "()"
      and s' = "()" and err = ?e3]
  have run4: "DeleteTableIfExists ?m3 () () = (Some ?e3, ())"
    by blast
  from call1 run1 call2 run2 ne2 run3 ne3 run4 show ?thesis
    by (intro conjI)
qed

text \<open>
  Claim C10. The request \<open>CreateTableIfNotExists\<close> sends is rendered from the option list
  that starts with \<open>WithHashKey hashKeyName hashKeyType\<close> and continues with the caller's
  options. The configuration's hash key is therefore the last \<open>WithHashKey\<close> of the caller's
  options when there is one, and the arguments' key only otherwise: a \<open>WithHashKey n ty\<close>
  among the options, with no later one, puts \<open>n\<close> at the head of the key schema and
  \<open>(n, ty)\<close> at the head of the attribute definitions.
\<close>

theorem later_hash_key_option_overrides_arguments:
  "snd (CreateTableIfNotExists t ctx hk ht opts s) =
     snd (CreateTableWithContext (api t) ctx
            (makeCreateTableInput (tableName t) (WithHashKey hk ht # opts)) s)
   \<and> hashKey (keys (makeTableOptions (WithHashKey hk ht # opts))) =
       Some (lastOr \<lparr>attributeName = hk, attributeType = ht\<rparr> (List.map_filter hashKeyOf opts))
   \<and> (List.map_filter hashKeyOf ys = [] \<longrightarrow>
        take 1 (KeySchema (makeCreateTableInput (tableName t)
                  (WithHashKey hk ht # xs @ WithHashKey n ty # ys))) =
          [\<lparr>kseAttributeName = n, KeyType = KeyTypeHash\<rparr>]
        \<and> take 1 (AttributeDefinitions (makeCreateTableInput (tableName t)
                  (WithHashKey hk ht # xs @ WithHashKey n ty # ys))) =
          [\<lparr>AttributeName = n, AttributeType = ty\<rparr>])"
proof -
  have a: "snd (CreateTableIfNotExists t ctx hk ht opts s) =
     snd (CreateTableWithContext (api t) ctx
            (makeCreateTableInput (tableName t) (WithHashKey hk ht # opts)) s)"
    by (simp add: CreateTableIfNotExists_def Let_def split: prod.splits option.splits)
  have b: "hashKey (keys (makeTableOptions (WithHashKey hk ht # opts))) =
       Some (lastOr \<lparr>attributeName = hk, attributeType = ht\<rparr> (List.map_filter hashKeyOf opts))"
  proof (cases "List.map_filter hashKeyOf opts = []")
    case True
    then show ?thesis by (simp add: hashKey_makeTableOptions lastOr_def)
  next
    case False
    then show ?thesis
      by (simp add: hashKey_makeTableOptions lastOr_def last_map)
  qed
  have c: "List.map_filter hashKeyOf ys = [] \<longrightarrow>
        take 1 (KeySchema (makeCreateTableInput (tableName t)
                  (WithHashKey hk ht # xs @ WithHashKey n ty # ys))) =
          [\<lparr>kseAttributeName = n, KeyType = KeyTypeHash\<rparr>]
        \<and> take 1 (AttributeDefinitions (makeCreateTableInput (tableName t)
                  (WithHashKey hk ht # xs @ WithHashKey n ty # ys))) =
          [\<lparr>AttributeName = n, AttributeType = ty\<rparr>]"
  proof
    assume ys: "List.map_filter hashKeyOf ys = []"
    let ?opts = "WithHashKey hk ht # xs @ WithHashKey n ty # ys"
    have k: "hashKey (keys (makeTableOptions ?opts)) =
               Some \<lparr>attributeName = n, attributeType = ty\<rparr>"
      using ys by (simp add: hashKey_makeTableOptions map_filter_append lastOr_def)
    have ks: "take 1 (KeySchema (makeCreateTableInput (tableName t) ?opts)) =
          [\<lparr>kseAttributeName = n, KeyType = KeyTypeHash\<rparr>]"
      using makeKeySchemaElements_hashKey [OF k]
      by (simp add: makeCreateTableInput_KeySchema)
    have ne: "makeAttributeDefinitions (makeTableOptions ?opts) \<noteq> []"
      using k by (simp add: makeAttributeDefinitions_def Let_def split: option.splits)
    have "take 1 (AttributeDefinitions (makeCreateTableInput (tableName t) ?opts)) =
          take 1 (makeAttributeDefinitions (makeTableOptions ?opts))"
      unfolding makeCreateTableInput_AttributeDefinitions merge_eq
      using ne by (rule take1_append)
    also have "\<dots> = [\<lparr>AttributeName = n, AttributeType = ty\<rparr>]"
      using makeAttributeDefinitions_hashKey [OF k] by simp
    finally have ad: "take 1 (AttributeDefinitions (makeCreateTableInput (tableName t) ?opts)) =
          [\<lparr>AttributeName = n, AttributeType = ty\<rparr>]" .
    from ks ad show "take 1 (KeySchema (makeCreateTableInput (tableName t) ?opts)) =
          [\<lparr>kseAttributeName = n, KeyType = KeyTypeHash\<rparr>]
        \<and> take 1 (AttributeDefinitions (makeCreateTableInput (tableName t) ?opts)) =
          [\<lparr>AttributeName = n, AttributeType = ty\<rparr>]"
      by (rule conjI)
  qed
  from a b c show ?thesis by (intro conjI)
qed


theorem later_hash_key_option_overrides_arguments_witness:
  "List.map_filter hashKeyOf ([] :: TableOption list) = []
   \<and> take 1 (KeySchema (makeCreateTableInput (tableName (New serviceAPI ''blah''))
        (WithHashKey ''id'' ''S'' # [WithRangeKey ''ts'' ''N''] @ WithHashKey ''other'' ''N'' # []))) =
       [\<lparr>kseAttributeName = ''other'', KeyType = KeyTypeHash\<rparr>]
   \<and> take 1 (AttributeDefinitions (makeCreateTableInput (tableName (New serviceAPI ''blah''))
        (WithHashKey ''id'' ''S'' # [WithRangeKey ''ts'' ''N''] @ WithHashKey ''other'' ''N'' # []))) =
       [\<lparr>AttributeName = ''other'', AttributeType = ''N''\<rparr>]
   \<and> map KeySchema (createCalls (snd (CreateTableIfNotExists (New serviceAPI ''blah'') ()
        ''id'' ''S'' [WithRangeKey ''ts'' ''N'', WithHashKey ''other'' ''N''] emptyService))) =
       [[\<lparr>kseAttributeName = ''other'', KeyType = ''HASH''\<rparr>,
         \<lparr>kseAttributeName = ''ts'', KeyType = ''RANGE''\<rparr>]]
   \<and> map AttributeDefinitions (createCalls (snd (CreateTableIfNotExists (New serviceAPI ''blah'') ()
        ''id'' ''S'' [WithRangeKey ''ts'' ''N'', WithHashKey ''other'' ''N''] emptyService))) =
       [[\<lparr>AttributeName = ''other'', AttributeType = ''N''\<rparr>,
         \<lparr>AttributeName = ''ts'', AttributeType = ''N''\<rparr>]]"
proof -
  let ?t = "New serviceAPI ''blah''"
  let ?opts = "[WithRangeKey ''ts'' ''N'', WithHashKey ''other'' ''N'']"
  note inst = later_hash_key_option_overrides_arguments [where t = ?t and ctx = "()"
      and hk = "''id''" and ht = "''S''" and opts = ?opts and s = emptyService
      and xs = "[WithRangeKey ''ts'' ''N'']" and n = "''other''" and ty = "''N''" and ys = "[]"]
  have h: "List.map_filter hashKeyOf ([] :: TableOption list) = []"
    by simp
  from inst h
  have ks: "take 1 (KeySchema (makeCreateTableInput (tableName ?t)
        (WithHashKey ''id'' ''S'' # [WithRangeKey ''ts'' ''N''] @ WithHashKey ''other'' ''N'' # []))) =
       [\<lparr>kseAttributeName = ''other'', KeyType = KeyTypeHash\<rparr>]"
    and ad: "take 1 (AttributeDefinitions (makeCreateTableInput (tableName ?t)
        (WithHashKey ''id'' ''S'' # [WithRangeKey ''ts'' ''N''] @ WithHashKey ''other'' ''N'' # []))) =
       [\<lparr>AttributeName = ''other'', AttributeType = ''N''\<rparr>]"
    by blast+
  from inst
  have sent: "snd (CreateTableIfNotExists ?t () ''id'' ''S'' ?opts emptyService) =
     snd (CreateTableWithContext (api ?t) ()
            (makeCreateTableInput (tableName ?t) (WithHashKey ''id'' ''S'' # ?opts)) emptyService)"
    by blast
  have calls: "createCalls (snd (CreateTableWithContext (api ?t) ()
            (makeCreateTableInput (tableName ?t) (WithHashKey ''id'' ''S'' # ?opts)) emptyService)) =
       [makeCreateTableInput ''blah'' (WithHashKey ''id'' ''S'' # ?opts)]"
    by (simp add: New_def serviceAPI_def emptyService_def makeCreateTableInput_TableName
                  Let_def)
  have req: "KeySchema (makeCreateTableInput ''blah'' (WithHashKey ''id'' ''S'' # ?opts)) =
       [\<lparr>kseAttributeName = ''other'', KeyType = ''HASH''\<rparr>,
        \<lparr>kseAttributeName = ''ts'', KeyType = ''RANGE''\<rparr>]"
    "AttributeDefinitions (makeCreateTableInput ''blah'' (WithHashKey ''id'' ''S'' # ?opts)) =
       [\<lparr>AttributeName = ''other'', AttributeType = ''N''\<rparr>,
        \<lparr>AttributeName = ''ts'', AttributeType = ''N''\<rparr>]"
    by (simp_all add: render_defs sdk_constants)
  have k2: "map KeySchema (createCalls (snd (CreateTableIfNotExists ?t ()
        ''id'' ''S'' ?opts emptyService))) =
       [[\<lparr>kseAttributeName = ''other'', KeyType = ''HASH''\<rparr>,
         \<lparr>kseAttributeName = ''ts'', KeyType = ''RANGE''\<rparr>]]"
    by (simp only: sent calls req list.map)
  have a2: "map AttributeDefinitions (createCalls (snd (CreateTableIfNotExists ?t ()
        ''id'' ''S'' ?opts emptyService))) =
       [[\<lparr>AttributeName = ''other'', AttributeType = ''N''\<rparr>,
         \<lparr>AttributeName = ''ts'', AttributeType = ''N''\<rparr>]]"
    by (simp only: sent calls req list.map)
  from h ks ad k2 a2 show ?thesis by (intro conjI)
qed

end
